theory Spec2Isabelle
  imports Complex_Main
begin

section \<open>Multi-frame filtering (df/multiframe.py)\<close>

text \<open>
  A shallow embedding of \<^verbatim>\<open>src/DeepFilterNet/df/multiframe.py\<close>.

  Conventions of the embedding.
  \<^item> A torch tensor is a shape together with an index function. Only indices inside
    the shape are meaningful; statements about tensor contents are made at such indices.
  \<^item> Floating-point numbers are idealised as \<^typ>\<open>real\<close> and \<^typ>\<open>complex\<close>: rounding,
    infinities and NaN are not modelled (in HOL \<open>x / 0 = 0\<close>).
  \<^item> A Python exception is a value \<open>Inl e\<close> of the result type.
  \<^item> The functions of the torch library that the source calls (\<open>pad\<close>, \<open>unfold\<close>,
    \<open>narrow\<close>, \<open>einsum\<close>, \<open>view\<close>, \<open>as_strided\<close>, slice assignment) are modelled from
    their documented behaviour, including broadcasting of axes of size one.
  \<^item> Tensors that a function writes to live in a heap of tensor objects, addressed by
    references, so that aliasing between the argument and the returned tensor is visible.
\<close>

subsection \<open>Errors and tensors\<close>

datatype error = IndexError | ZeroDivisionError | AssertionError | RuntimeError | ValueError

record 'a tensor =
  shape :: "nat list"
  elems :: "nat list \<Rightarrow> 'a"

definition rank :: "'a tensor \<Rightarrow> nat" where
  "rank t = length (shape t)"

text \<open>An index list lies inside a shape.\<close>

definition inside :: "nat list \<Rightarrow> nat list \<Rightarrow> bool" where
  "inside idx shp = list_all2 (<) idx shp"

text \<open>A dimension argument: negative values count from the last axis.\<close>

definition resolve_dim :: "nat \<Rightarrow> int \<Rightarrow> error + nat" where
  "resolve_dim r d =
     (if 0 \<le> d \<and> d < int r then Inr (nat d)
      else if - int r \<le> d \<and> d < 0 then Inr (nat (int r + d))
      else Inl IndexError)"

subsection \<open>Broadcasting\<close>

definition bdim :: "nat \<Rightarrow> nat \<Rightarrow> nat option" where
  "bdim a b = (if a = b then Some a else if a = 1 then Some b else if b = 1 then Some a else None)"

fun bshape_aligned :: "nat list \<Rightarrow> nat list \<Rightarrow> nat list option" where
  "bshape_aligned [] [] = Some []"
| "bshape_aligned (x # xs) (y # ys) =
     (case bdim x y of None \<Rightarrow> None
      | Some z \<Rightarrow> (case bshape_aligned xs ys of None \<Rightarrow> None | Some zs \<Rightarrow> Some (z # zs)))"
| "bshape_aligned _ _ = None"

definition lpad1 :: "nat \<Rightarrow> nat list \<Rightarrow> nat list" where
  "lpad1 n xs = replicate (n - length xs) 1 @ xs"

text \<open>Shapes are aligned at their last axis; a missing leading axis counts as size one.\<close>

definition broadcast_shapes :: "nat list \<Rightarrow> nat list \<Rightarrow> nat list option" where
  "broadcast_shapes xs ys =
     (let n = max (length xs) (length ys) in bshape_aligned (lpad1 n xs) (lpad1 n ys))"

text \<open>The index into an operand of shape \<open>shp\<close> that a result index \<open>idx\<close> reads.\<close>

definition bindex :: "nat list \<Rightarrow> nat list \<Rightarrow> nat list" where
  "bindex shp idx =
     map2 (\<lambda>s i. if s = 1 then 0 else i) shp (drop (length idx - length shp) idx)"

subsection \<open>Tensor operations of the library\<close>

text \<open>
  \<open>torch.nn.functional.pad\<close> in constant mode on one axis: a non-negative amount adds
  entries \<open>z\<close>, a negative amount removes entries.
\<close>

definition pad_dim :: "nat \<Rightarrow> int \<Rightarrow> int \<Rightarrow> 'a \<Rightarrow> 'a tensor \<Rightarrow> error + 'a tensor" where
  "pad_dim d before after z t =
     (let n = int (shape t ! d) in
      if n + min before 0 + min after 0 < 0 then Inl RuntimeError
      else Inr \<lparr>shape = (shape t)[d := nat (n + before + after)],
                elems = (\<lambda>idx. let i = int (idx ! d) - before in
                           if 0 \<le> i \<and> i < n then elems t (idx[d := nat i]) else z)\<rparr>)"

text \<open>\<open>ConstantPad2d((0, 0, before, after), z)\<close>: pads the axis before the last one.\<close>

definition ConstantPad2d :: "int \<times> int \<Rightarrow> 'a \<Rightarrow> 'a tensor \<Rightarrow> error + 'a tensor" where
  "ConstantPad2d p z t =
     (if rank t < 2 then Inl RuntimeError else pad_dim (rank t - 2) (fst p) (snd p) z t)"

text \<open>\<open>ConstantPad3d((0, 0, 0, 0, before, after), z)\<close>: pads the third axis from the end.\<close>

definition ConstantPad3d :: "int \<times> int \<Rightarrow> 'a \<Rightarrow> 'a tensor \<Rightarrow> error + 'a tensor" where
  "ConstantPad3d p z t =
     (if rank t < 3 then Inl RuntimeError else pad_dim (rank t - 3) (fst p) (snd p) z t)"

text \<open>\<open>Tensor.unfold(dim, size, step)\<close>: the windows become a new last axis.\<close>

definition unfold_t :: "int \<Rightarrow> int \<Rightarrow> int \<Rightarrow> 'a tensor \<Rightarrow> error + 'a tensor" where
  "unfold_t dm sz step t =
     (case resolve_dim (rank t) dm of
        Inl e \<Rightarrow> Inl e
      | Inr d \<Rightarrow>
          (let n = int (shape t ! d) in
           if sz < 0 \<or> n < sz \<or> step \<le> 0 then Inl RuntimeError
           else Inr \<lparr>shape = (shape t)[d := nat ((n - sz) div step + 1)] @ [nat sz],
                     elems = (\<lambda>idx. elems t ((butlast idx)[d := idx ! d * nat step + last idx]))\<rparr>))"

text \<open>\<open>Tensor.narrow(dim, 0, length)\<close>.\<close>

definition narrow :: "int \<Rightarrow> int \<Rightarrow> 'a tensor \<Rightarrow> error + 'a tensor" where
  "narrow dm len t =
     (case resolve_dim (rank t) dm of
        Inl e \<Rightarrow> Inl e
      | Inr d \<Rightarrow>
          if len < 0 \<or> int (shape t ! d) < len then Inl RuntimeError
          else Inr \<lparr>shape = (shape t)[d := nat len], elems = elems t\<rparr>)"

text \<open>\<open>Tensor.unsqueeze(-1)\<close> and \<open>Tensor.squeeze(-1)\<close>.\<close>

definition unsqueeze_last :: "'a tensor \<Rightarrow> 'a tensor" where
  "unsqueeze_last t = \<lparr>shape = shape t @ [1], elems = (\<lambda>idx. elems t (butlast idx))\<rparr>"

definition squeeze_last :: "'a tensor \<Rightarrow> 'a tensor" where
  "squeeze_last t =
     (if shape t \<noteq> [] \<and> last (shape t) = 1
      then \<lparr>shape = butlast (shape t), elems = (\<lambda>idx. elems t (idx @ [0]))\<rparr>
      else t)"

text \<open>\<open>torch.view_as_complex\<close> and \<open>torch.view_as_real\<close>: the last axis of size two holds
  the real and the imaginary part.\<close>

definition view_as_complex :: "real tensor \<Rightarrow> error + complex tensor" where
  "view_as_complex t =
     (if shape t = [] \<or> last (shape t) \<noteq> 2 then Inl RuntimeError
      else Inr \<lparr>shape = butlast (shape t),
                elems = (\<lambda>idx. Complex (elems t (idx @ [0])) (elems t (idx @ [1])))\<rparr>)"

definition view_as_real :: "complex tensor \<Rightarrow> real tensor" where
  "view_as_real t =
     \<lparr>shape = shape t @ [2],
      elems = (\<lambda>idx. if last idx = 0 then Re (elems t (butlast idx)) else Im (elems t (butlast idx)))\<rparr>"

definition conj_t :: "complex tensor \<Rightarrow> complex tensor" where
  "conj_t t = \<lparr>shape = shape t, elems = (\<lambda>idx. cnj (elems t idx))\<rparr>"

text \<open>
  \<open>coefs.view(coefs.shape[0], -1, n, *coefs.shape[2:])\<close>: the second axis is split into
  chunks of \<open>n\<close>. (A tensor of rank one can be viewed this way only for \<open>n = 1\<close>.)
\<close>

definition view_split1 :: "int \<Rightarrow> 'a tensor \<Rightarrow> error + 'a tensor" where
  "view_split1 n t =
     (case shape t of
        [] \<Rightarrow> Inl IndexError
      | [s0] \<Rightarrow>
          if n = 1 \<and> s0 \<noteq> 0
          then Inr \<lparr>shape = [s0, 1, 1], elems = (\<lambda>idx. elems t [idx ! 0])\<rparr>
          else Inl RuntimeError
      | s0 # s1 # rest \<Rightarrow>
          if n \<le> 0 \<or> s0 * prod_list rest = 0 \<or> \<not> nat n dvd s1 then Inl RuntimeError
          else Inr \<lparr>shape = s0 # (s1 div nat n) # nat n # rest,
                    elems = (\<lambda>idx. elems t (idx ! 0 # (idx ! 1 * nat n + idx ! 2) # drop 3 idx))\<rparr>)"

text \<open>\<open>t.unflatten(3, (a, b))\<close> and \<open>t.unflatten(3, (a, b, c))\<close> with sizes given as
  Python integers.\<close>

definition unflatten2 :: "int \<Rightarrow> int \<Rightarrow> 'a tensor \<Rightarrow> error + 'a tensor" where
  "unflatten2 a b t =
     (if rank t \<le> 3 then Inl IndexError
      else if a < 0 \<or> b < 0 \<or> int (shape t ! 3) \<noteq> a * b then Inl RuntimeError
      else Inr \<lparr>shape = take 3 (shape t) @ [nat a, nat b] @ drop 4 (shape t),
                elems = (\<lambda>idx. elems t (take 3 idx @ [idx ! 3 * nat b + idx ! 4] @ drop 5 idx))\<rparr>)"

definition unflatten3 :: "int \<Rightarrow> int \<Rightarrow> int \<Rightarrow> 'a tensor \<Rightarrow> error + 'a tensor" where
  "unflatten3 a b c t =
     (if rank t \<le> 3 then Inl IndexError
      else if a < 0 \<or> b < 0 \<or> c < 0 \<or> int (shape t ! 3) \<noteq> a * b * c then Inl RuntimeError
      else Inr \<lparr>shape = take 3 (shape t) @ [nat a, nat b, nat c] @ drop 4 (shape t),
                elems = (\<lambda>idx. elems t
                   (take 3 idx @ [(idx ! 3 * nat b + idx ! 4) * nat c + idx ! 5] @ drop 6 idx))\<rparr>)"

subsection \<open>The modules and their constructors\<close>

text \<open>
  The attributes that \<open>MultiFrameModule.__init__\<close> sets. The padding layer \<open>self.pad\<close>
  is kept as its two amounts \<open>(frame_size - 1 - lookahead, lookahead)\<close>; whether it is a
  \<open>ConstantPad2d\<close> or a \<open>ConstantPad3d\<close> is decided by \<open>real_flag\<close>. \<open>training\<close> is the
  attribute of \<open>nn.Module\<close>, which a new module has set.
\<close>

record MultiFrameModule =
  num_freqs :: int
  frame_size :: int
  real_flag :: bool
  pad :: "int \<times> int"
  need_unfold :: bool
  lookahead :: int
  training :: bool

record DF = MultiFrameModule +
  conj_flag :: bool

record MfMvdr = MultiFrameModule +
  eps :: real

definition MultiFrameModule_init :: "int \<Rightarrow> int \<Rightarrow> int \<Rightarrow> bool \<Rightarrow> error + MultiFrameModule" where
  "MultiFrameModule_init nf fs la re =
     Inr \<lparr>num_freqs = nf, frame_size = fs, real_flag = re,
          pad = (fs - 1 - la, la), need_unfold = (fs > 1), lookahead = la, training = True\<rparr>"

definition DF_init :: "int \<Rightarrow> int \<Rightarrow> int \<Rightarrow> bool \<Rightarrow> error + DF" where
  "DF_init nf fs la c =
     (case MultiFrameModule_init nf fs la False of
        Inl e \<Rightarrow> Inl e
      | Inr m \<Rightarrow> Inr (MultiFrameModule.extend m \<lparr>conj_flag = c\<rparr>))"

definition DFreal_init :: "int \<Rightarrow> int \<Rightarrow> int \<Rightarrow> bool \<Rightarrow> error + DF" where
  "DFreal_init nf fs la c =
     (case MultiFrameModule_init nf fs la True of
        Inl e \<Rightarrow> Inl e
      | Inr m \<Rightarrow> Inr (MultiFrameModule.extend m \<lparr>conj_flag = c\<rparr>))"

definition CRM_init :: "int \<Rightarrow> int \<Rightarrow> int \<Rightarrow> error + MultiFrameModule" where
  "CRM_init nf fs la =
     (if fs = 1 \<and> la = 0 then MultiFrameModule_init nf 1 0 False else Inl AssertionError)"

definition MfWf_init :: "int \<Rightarrow> int \<Rightarrow> int \<Rightarrow> error + MultiFrameModule" where
  "MfWf_init nf fs la = MultiFrameModule_init nf fs la False"

definition MfMvdr_init :: "int \<Rightarrow> int \<Rightarrow> int \<Rightarrow> real \<Rightarrow> error + MfMvdr" where
  "MfMvdr_init nf fs la e =
     (case MultiFrameModule_init nf fs la False of
        Inl err \<Rightarrow> Inl err
      | Inr m \<Rightarrow> Inr (MultiFrameModule.extend m \<lparr>eps = e\<rparr>))"

subsection \<open>Strided views and \<open>as_windowed\<close>\<close>

text \<open>
  \<open>as_windowed\<close> works on the memory layout of its argument, so here a tensor is a view on
  a flat storage: entry \<open>idx\<close> is the storage cell \<open>storage_offset + \<Sum> idx\<^sub>k * strides\<^sub>k\<close>.
\<close>

record 'a strided =
  storage :: "'a list"
  storage_offset :: int
  sizes :: "int list"
  strides :: "int list"

definition cell :: "'a strided \<Rightarrow> int list \<Rightarrow> int" where
  "cell v idx = storage_offset v + sum_list (map2 (*) idx (strides v))"

definition sget :: "'a strided \<Rightarrow> int list \<Rightarrow> 'a" where
  "sget v idx = storage v ! nat (cell v idx)"

text \<open>\<open>list.insert(i, x)\<close> of Python: the position is clipped to the list.\<close>

definition py_insert :: "int \<Rightarrow> 'a \<Rightarrow> 'a list \<Rightarrow> 'a list" where
  "py_insert i x xs =
     (let n = int (length xs);
          k = nat (if i < 0 then max 0 (n + i) else min i n)
      in take k xs @ [x] @ drop k xs)"

text \<open>
  \<open>Tensor.as_strided(size, stride)\<close>: sizes and strides must not be negative, and a view
  with at least one entry must fit into the storage.
\<close>

definition as_strided :: "'a strided \<Rightarrow> int list \<Rightarrow> int list \<Rightarrow> error + 'a strided" where
  "as_strided x sz st =
     (if list_ex (\<lambda>s. s < 0) sz \<or> list_ex (\<lambda>s. s < 0) st \<or> length sz \<noteq> length st
      then Inl RuntimeError
      else if \<not> list_ex (\<lambda>s. s = 0) sz
              \<and> int (length (storage x))
                  < storage_offset x + sum_list (map2 (\<lambda>s k. (s - 1) * k) sz st) + 1
      then Inl RuntimeError
      else Inr (x\<lparr>sizes := sz, strides := st\<rparr>))"

text \<open>
  The shape and the strides that \<open>as_windowed\<close> computes (lines 21 to 36). In
  \<open>int(shape[dim] - window_length + step / step)\<close> the quotient \<open>step / step\<close> is evaluated
  first: it is \<open>1.0\<close>, or a \<open>ZeroDivisionError\<close> for \<open>step = 0\<close>.
\<close>

definition as_windowed_layout ::
  "int list \<Rightarrow> int list \<Rightarrow> int \<Rightarrow> int \<Rightarrow> int \<Rightarrow> error + (int list \<times> int list)" where
  "as_windowed_layout shp strd window_length step dm =
     (case resolve_dim (length shp) dm of
        Inl e \<Rightarrow> Inl e
      | Inr d \<Rightarrow>
          if step = 0 then Inl ZeroDivisionError
          else
            (let shp1 = shp[d := shp ! d - window_length + 1];
                 shp2 = (if dm > 0 then py_insert (dm + 1) window_length shp1
                         else if dm = - 1 then shp1 @ [window_length]
                         else py_insert dm window_length shp1);
                 strd2 = (if dm > 0 then py_insert (dm + 1) (strd ! d) strd
                          else if dm = - 1 then strd @ [strd ! d]
                          else py_insert dm (strd ! d) strd)
             in case resolve_dim (length strd2) dm of
                  Inl e \<Rightarrow> Inl e
                | Inr d2 \<Rightarrow> Inr (shp2, strd2[d2 := strd2 ! d2 * step])))"

definition as_windowed :: "'a strided \<Rightarrow> int \<Rightarrow> int \<Rightarrow> int \<Rightarrow> error + 'a strided" where
  "as_windowed x window_length step dm =
     (case as_windowed_layout (sizes x) (strides x) window_length step dm of
        Inl e \<Rightarrow> Inl e
      | Inr (shp, strd) \<Rightarrow> as_strided x shp strd)"

text \<open>A contiguous tensor of shape \<open>[1, length xs]\<close> holding the sequence \<open>xs\<close>.\<close>

definition row :: "'a list \<Rightarrow> 'a strided" where
  "row xs = \<lparr>storage = xs, storage_offset = 0, sizes = [1, int (length xs)],
            strides = [int (length xs), 1]\<rparr>"

subsection \<open>Unfolding the spectrogram\<close>

text \<open>\<open>Tensor.permute(0, 1, 5, 2, 3, 4)\<close>.\<close>

definition permute_015234 :: "'a tensor \<Rightarrow> error + 'a tensor" where
  "permute_015234 t =
     (if rank t \<noteq> 6 then Inl RuntimeError
      else Inr \<lparr>shape = map (\<lambda>k. shape t ! k) [0, 1, 5, 2, 3, 4],
                elems = (\<lambda>idx. elems t [idx ! 0, idx ! 1, idx ! 3, idx ! 4, idx ! 5, idx ! 2])\<rparr>)"

text \<open>
  The call \<open>self.pad(spec)\<close>: the layer built in lines 71 to 74 is a \<open>ConstantPad3d\<close> for
  a module constructed with \<open>real=True\<close> and a \<open>ConstantPad2d\<close> otherwise.
\<close>

definition apply_pad ::
  "'z MultiFrameModule_scheme \<Rightarrow> ('a::zero) tensor \<Rightarrow> error + 'a tensor" where
  "apply_pad self spec =
     (if real_flag self then ConstantPad3d (pad self) 0 spec else ConstantPad2d (pad self) 0 spec)"

text \<open>\<open>MultiFrameModule.spec_unfold\<close> (lines 85 to 95).\<close>

definition spec_unfold ::
  "'z MultiFrameModule_scheme \<Rightarrow> ('a::zero) tensor \<Rightarrow> error + 'a tensor" where
  "spec_unfold self spec =
     (if need_unfold self
      then (case apply_pad self spec of
              Inl e \<Rightarrow> Inl e
            | Inr padded \<Rightarrow> unfold_t 2 (frame_size self) 1 padded)
      else Inr (unsqueeze_last spec))"

text \<open>\<open>MultiFrameModule.spec_unfold_real\<close> (lines 78 to 83).\<close>

definition spec_unfold_real ::
  "'z MultiFrameModule_scheme \<Rightarrow> ('a::zero) tensor \<Rightarrow> error + 'a tensor" where
  "spec_unfold_real self spec =
     (if need_unfold self
      then (case apply_pad self spec of
              Inl e \<Rightarrow> Inl e
            | Inr padded \<Rightarrow>
                (case unfold_t (- 3) (frame_size self) 1 padded of
                   Inl e \<Rightarrow> Inl e
                 | Inr u \<Rightarrow> permute_015234 u))
      else Inr (unsqueeze_last spec))"

subsection \<open>Correlation matrices\<close>

text \<open>\<open>torch.einsum("...n,...m->...mn", a, b)\<close>.\<close>

definition einsum_n_m_mn :: "complex tensor \<Rightarrow> complex tensor \<Rightarrow> error + complex tensor" where
  "einsum_n_m_mn a b =
     (if shape a = [] \<or> shape b = [] then Inl RuntimeError
      else
        (case broadcast_shapes (butlast (shape a)) (butlast (shape b)) of
           None \<Rightarrow> Inl RuntimeError
         | Some pre \<Rightarrow>
             Inr \<lparr>shape = pre @ [last (shape b), last (shape a)],
                  elems = (\<lambda>idx.
                     let p = take (length pre) idx;
                         m = idx ! length pre;
                         n = idx ! Suc (length pre)
                     in elems a (bindex (butlast (shape a)) p @ [n])
                        * elems b (bindex (butlast (shape b)) p @ [m]))\<rparr>))"

text \<open>\<open>psd\<close> (lines 110 to 123): \<open>F.pad(x, (0, 0, n - 1, 0)).unfold(-2, n, 1)\<close>, then the
  product with the conjugate.\<close>

definition psd :: "complex tensor \<Rightarrow> int \<Rightarrow> error + complex tensor" where
  "psd x n =
     (case ConstantPad2d (n - 1, 0) 0 x of
        Inl e \<Rightarrow> Inl e
      | Inr padded \<Rightarrow>
          (case unfold_t (- 2) n 1 padded of
             Inl e \<Rightarrow> Inl e
           | Inr xu \<Rightarrow> einsum_n_m_mn xu (conj_t xu)))"

subsection \<open>Tikhonov regularisation\<close>

text \<open>\<open>_compute_mat_trace\<close> (lines 285 to 301) with the default axes \<open>-1\<close> and \<open>-2\<close>.\<close>

definition compute_mat_trace :: "complex tensor \<Rightarrow> error + complex tensor" where
  "compute_mat_trace input =
     (if rank input < 2 then Inl AssertionError
      else if last (shape input) \<noteq> last (butlast (shape input)) then Inl AssertionError
      else Inr \<lparr>shape = butlast (butlast (shape input)),
                elems = (\<lambda>idx. sum_list (map (\<lambda>k. elems input (idx @ [k, k]))
                                          [0 ..< last (shape input)]))\<rparr>)"

text \<open>
  \<open>_tik_reg\<close> (lines 304 to 320). \<open>epsilon\<close> has the shape of the trace with two unit
  axes appended; \<open>eye\<close> is the identity matrix of size \<open>C\<close>, so \<open>epsilon * eye\<close> has the
  shape of \<open>mat\<close>.
\<close>

definition tik_reg :: "complex tensor \<Rightarrow> real \<Rightarrow> real \<Rightarrow> error + complex tensor" where
  "tik_reg mat reg eps0 =
     (if shape mat = [] then Inl IndexError
      else
        (case compute_mat_trace mat of
           Inl e \<Rightarrow> Inl e
         | Inr tr \<Rightarrow>
             Inr \<lparr>shape = shape mat,
                  elems = (\<lambda>idx.
                     let epsilon = Re (elems tr (butlast (butlast idx))) * reg + eps0;
                         eye = (if last (butlast idx) = last idx then 1 else 0)
                     in elems mat idx + complex_of_real epsilon * eye)\<rparr>))"

subsection \<open>Example inputs\<close>

text \<open>A spectrogram with one batch entry, one channel, five frames \<open>1, 2, 3, 4, 5\<close> and one
  frequency bin.\<close>

definition spec5 :: "complex tensor" where
  "spec5 = \<lparr>shape = [1, 1, 5, 1], elems = (\<lambda>idx. of_nat (idx ! 2) + 1)\<rparr>"

text \<open>A spectrogram with one batch entry, one channel, one frequency bin and no frame.\<close>

definition spec0 :: "complex tensor" where
  "spec0 = \<lparr>shape = [1, 1, 0, 1], elems = (\<lambda>idx. 0)\<rparr>"

text \<open>A spectrogram with two frames \<open>1\<close> and \<open>\<i>\<close>, and the zero matrix of size two.\<close>

definition x2 :: "complex tensor" where
  "x2 = \<lparr>shape = [1, 1, 2, 1], elems = (\<lambda>idx. if idx ! 2 = 0 then 1 else \<i>)\<rparr>"

definition zeros2 :: "complex tensor" where
  "zeros2 = \<lparr>shape = [2, 2], elems = (\<lambda>idx. 0)\<rparr>"

subsection \<open>Sequencing of fallible steps\<close>

definition bindE :: "error + 'a \<Rightarrow> ('a \<Rightarrow> error + 'b) \<Rightarrow> error + 'b" where
  "bindE x f = (case x of Inl e \<Rightarrow> Inl e | Inr v \<Rightarrow> f v)"

subsection \<open>Contractions and elementwise operations\<close>

definition bi :: "nat \<Rightarrow> nat \<Rightarrow> nat" where
  "bi s i = (if s = 1 then 0 else i)"

text \<open>\<open>torch.einsum("...tfn,...ntf->...tf", a, b)\<close>, the function \<open>df\<close> (lines 126 to 136).\<close>

definition df :: "complex tensor \<Rightarrow> complex tensor \<Rightarrow> error + complex tensor" where
  "df spec coefs =
     (if rank spec < 3 \<or> rank coefs < 3 then Inl RuntimeError
      else
        (let pa = take (rank spec - 3) (shape spec);
             ta = shape spec ! (rank spec - 3);
             fa = shape spec ! (rank spec - 2);
             na = shape spec ! (rank spec - 1);
             pb = take (rank coefs - 3) (shape coefs);
             nb = shape coefs ! (rank coefs - 3);
             tb = shape coefs ! (rank coefs - 2);
             fb = shape coefs ! (rank coefs - 1)
         in case (broadcast_shapes pa pb, bdim ta tb, bdim fa fb, bdim na nb) of
              (Some pre, Some t, Some f, Some n) \<Rightarrow>
                Inr \<lparr>shape = pre @ [t, f],
                     elems = (\<lambda>idx.
                        let p = take (length pre) idx;
                            ti = idx ! length pre;
                            fi = idx ! Suc (length pre)
                        in sum_list (map (\<lambda>ni.
                             elems spec (bindex pa p @ [bi ta ti, bi fa fi, bi na ni])
                             * elems coefs (bindex pb p @ [bi nb ni, bi tb ti, bi fb fi]))
                           [0 ..< n]))\<rparr>
            | _ \<Rightarrow> Inl RuntimeError))"

text \<open>\<open>torch.einsum("...n,...n->...", spec, coefs)\<close>, the method \<open>apply_coefs\<close>
  (lines 103 to 107).\<close>

definition apply_coefs :: "complex tensor \<Rightarrow> complex tensor \<Rightarrow> error + complex tensor" where
  "apply_coefs spec coefs =
     (if rank spec < 1 \<or> rank coefs < 1 then Inl RuntimeError
      else
        (let pa = butlast (shape spec); na = last (shape spec);
             pb = butlast (shape coefs); nb = last (shape coefs)
         in case (broadcast_shapes pa pb, bdim na nb) of
              (Some pre, Some n) \<Rightarrow>
                Inr \<lparr>shape = pre,
                     elems = (\<lambda>idx. sum_list (map (\<lambda>ni.
                             elems spec (bindex pa idx @ [bi na ni])
                             * elems coefs (bindex pb idx @ [bi nb ni]))
                           [0 ..< n]))\<rparr>
            | _ \<Rightarrow> Inl RuntimeError))"

text \<open>\<open>torch.einsum("...nm,...m->...n", a, v)\<close>: a matrix-vector product per bin.\<close>

definition einsum_nm_m_n :: "complex tensor \<Rightarrow> complex tensor \<Rightarrow> error + complex tensor" where
  "einsum_nm_m_n a v =
     (if rank a < 2 \<or> rank v < 1 then Inl RuntimeError
      else
        (let pa = take (rank a - 2) (shape a);
             na = shape a ! (rank a - 2);
             ma = shape a ! (rank a - 1);
             pb = butlast (shape v); mb = last (shape v)
         in case (broadcast_shapes pa pb, bdim ma mb) of
              (Some pre, Some m) \<Rightarrow>
                Inr \<lparr>shape = pre @ [na],
                     elems = (\<lambda>idx.
                        let p = take (length pre) idx; ni = idx ! length pre
                        in sum_list (map (\<lambda>mi.
                             elems a (bindex pa p @ [ni, bi ma mi])
                             * elems v (bindex pb p @ [bi mb mi]))
                           [0 ..< m]))\<rparr>
            | _ \<Rightarrow> Inl RuntimeError))"

text \<open>Elementwise product and quotient of two tensors, with broadcasting.\<close>

definition mul_t :: "complex tensor \<Rightarrow> complex tensor \<Rightarrow> error + complex tensor" where
  "mul_t a b =
     (case broadcast_shapes (shape a) (shape b) of
        None \<Rightarrow> Inl RuntimeError
      | Some s \<Rightarrow> Inr \<lparr>shape = s,
                       elems = (\<lambda>idx. elems a (bindex (shape a) idx)
                                       * elems b (bindex (shape b) idx))\<rparr>)"

definition mul_real_t :: "real tensor \<Rightarrow> real tensor \<Rightarrow> error + real tensor" where
  "mul_real_t a b =
     (case broadcast_shapes (shape a) (shape b) of
        None \<Rightarrow> Inl RuntimeError
      | Some s \<Rightarrow> Inr \<lparr>shape = s,
                       elems = (\<lambda>idx. elems a (bindex (shape a) idx)
                                       * elems b (bindex (shape b) idx))\<rparr>)"

definition div_t :: "complex tensor \<Rightarrow> real tensor \<Rightarrow> error + complex tensor" where
  "div_t a b =
     (case broadcast_shapes (shape a) (shape b) of
        None \<Rightarrow> Inl RuntimeError
      | Some s \<Rightarrow> Inr \<lparr>shape = s,
                       elems = (\<lambda>idx. elems a (bindex (shape a) idx)
                                       / complex_of_real (elems b (bindex (shape b) idx)))\<rparr>)"

text \<open>\<open>t.real\<close> and \<open>t + c\<close> for a number \<open>c\<close>.\<close>

definition real_t :: "complex tensor \<Rightarrow> real tensor" where
  "real_t t = \<lparr>shape = shape t, elems = (\<lambda>idx. Re (elems t idx))\<rparr>"

definition add_scalar :: "real tensor \<Rightarrow> real \<Rightarrow> real tensor" where
  "add_scalar t c = \<lparr>shape = shape t, elems = (\<lambda>idx. elems t idx + c)\<rparr>"

text \<open>\<open>t[..., k]\<close> and \<open>t.sum(dim=2)\<close>.\<close>

definition select_last :: "nat \<Rightarrow> 'a tensor \<Rightarrow> error + 'a tensor" where
  "select_last k t =
     (if shape t = [] \<or> last (shape t) \<le> k then Inl IndexError
      else Inr \<lparr>shape = butlast (shape t), elems = (\<lambda>idx. elems t (idx @ [k]))\<rparr>)"

definition sum_dim2 :: "real tensor \<Rightarrow> error + real tensor" where
  "sum_dim2 t =
     (if rank t < 3 then Inl IndexError
      else Inr \<lparr>shape = take 2 (shape t) @ drop 3 (shape t),
                elems = (\<lambda>idx. sum_list (map (\<lambda>n. elems t (take 2 idx @ [n] @ drop 2 idx))
                                          [0 ..< shape t ! 2]))\<rparr>)"

text \<open>A value of shape \<open>sv\<close> can be expanded to the shape \<open>target\<close>.\<close>

definition expandable :: "nat list \<Rightarrow> nat list \<Rightarrow> bool" where
  "expandable sv target \<longleftrightarrow>
     length sv \<le> length target
     \<and> list_all2 (\<lambda>s t. s = t \<or> s = 1) sv (drop (length target - length sv) target)"

definition expand_to :: "nat list \<Rightarrow> 'a tensor \<Rightarrow> error + 'a tensor" where
  "expand_to target v =
     (if expandable (shape v) target
      then Inr \<lparr>shape = target, elems = (\<lambda>idx. elems v (bindex (shape v) idx))\<rparr>
      else Inl RuntimeError)"

subsection \<open>Deep filtering on real-valued tensors\<close>

text \<open>
  \<open>df_real\<close> (lines 139 to 157). The four sums are written into \<open>out[..., 0]\<close> and
  \<open>out[..., 1]\<close>, which have the shape \<open>[b, c, t, f]\<close>; the in-place updates of lines 153
  and 156 need a value that can be expanded to that shape.
\<close>

definition df_real_term ::
  "nat list \<Rightarrow> nat \<Rightarrow> nat \<Rightarrow> real tensor \<Rightarrow> real tensor \<Rightarrow> error + real tensor" where
  "df_real_term target i j spec coefs =
     bindE (select_last i spec) (\<lambda>s.
     bindE (select_last j coefs) (\<lambda>k.
     bindE (mul_real_t s k) (\<lambda>p.
     bindE (sum_dim2 p) (expand_to target))))"

definition df_real :: "real tensor \<Rightarrow> real tensor \<Rightarrow> error + real tensor" where
  "df_real spec coefs =
     (if rank spec \<noteq> 6 then Inl ValueError
      else
        (let b = shape spec ! 0; c = shape spec ! 1; t = shape spec ! 3; f = shape spec ! 4;
             target = [b, c, t, f]
         in bindE (df_real_term target 0 0 spec coefs) (\<lambda>rr.
            bindE (df_real_term target 1 1 spec coefs) (\<lambda>ii.
            bindE (df_real_term target 0 1 spec coefs) (\<lambda>ri.
            bindE (df_real_term target 1 0 spec coefs) (\<lambda>ir.
              Inr \<lparr>shape = [b, c, t, f, 2],
                   elems = (\<lambda>idx. if last idx = 0
                                   then elems rr (butlast idx) - elems ii (butlast idx)
                                   else elems ri (butlast idx) + elems ir (butlast idx))\<rparr>))))))"

subsection \<open>Writing the filtered bins\<close>

text \<open>
  The assignment \<open>spec[..., :num_freqs, :] = value\<close>, as a function from the old tensor to
  the new one. The slice follows Python's rules for a bound beyond the axis or below zero;
  leading axes of size one of the value are ignored, and the rest must be expandable to
  the shape of the slice.
\<close>

definition setitem_freq :: "'a tensor \<Rightarrow> int \<Rightarrow> 'a tensor \<Rightarrow> error + 'a tensor" where
  "setitem_freq spec nf v =
     (if rank spec < 2 then Inl IndexError
      else
        (let F = shape spec ! (rank spec - 2);
             k = nat (if nf < 0 then max 0 (int F + nf) else min nf (int F));
             target = (shape spec)[rank spec - 2 := k];
             sv = dropWhile (\<lambda>s. s = 1) (shape v)
         in if expandable sv target
            then Inr \<lparr>shape = shape spec,
                      elems = (\<lambda>idx. if idx ! (rank spec - 2) < k
                                      then elems v (replicate (rank v - length sv) 0 @ bindex sv idx)
                                      else elems spec idx)\<rparr>
            else Inl RuntimeError))"

subsection \<open>The heap of tensor objects\<close>

text \<open>
  The spectrogram passed to \<open>forward\<close> is a tensor object that the caller keeps: it is
  given by a reference into a heap. \<open>spec.clone()\<close> allocates a new object.
\<close>

type_synonym heap = "real tensor list"

definition clone :: "heap \<Rightarrow> nat \<Rightarrow> heap \<times> nat" where
  "clone h r = (h @ [h ! r], length h)"

subsection \<open>The five filters\<close>

text \<open>\<open>DF.forward\<close> (lines 169 to 180).\<close>

definition DF_forward :: "DF \<Rightarrow> heap \<Rightarrow> nat \<Rightarrow> real tensor \<Rightarrow> error + heap \<times> nat" where
  "DF_forward self h spec coefs =
     bindE (view_as_complex (h ! spec)) (\<lambda>spec_c.
     bindE (spec_unfold self spec_c) (\<lambda>spec_u.
     bindE (view_as_complex coefs) (\<lambda>coefs_c.
     bindE (narrow (- 2) (num_freqs self) spec_u) (\<lambda>spec_f.
     bindE (view_split1 (frame_size self) coefs_c) (\<lambda>coefs_v.
     bindE (df spec_f (if conj_flag self then conj_t coefs_v else coefs_v)) (\<lambda>spec_f'.
       (let (h1, spec1) = (if training self then clone h spec else (h, spec))
        in bindE (setitem_freq (h1 ! spec1) (num_freqs self) (view_as_real spec_f')) (\<lambda>new.
             Inr (h1[spec1 := new], spec1)))))))))"

text \<open>\<open>DFreal.forward\<close> (lines 192 to 207). \<open>coefs.conj()\<close> of a real-valued tensor is the
  tensor itself.\<close>

definition DFreal_forward :: "DF \<Rightarrow> heap \<Rightarrow> nat \<Rightarrow> real tensor \<Rightarrow> error + heap \<times> nat" where
  "DFreal_forward self h spec coefs =
     bindE (spec_unfold_real self (h ! spec)) (\<lambda>spec_u.
     bindE (narrow (- 2) (num_freqs self) spec_u) (\<lambda>spec_f.
     bindE (view_split1 (frame_size self) coefs) (\<lambda>coefs_v.
     bindE (df_real spec_f (if conj_flag self then coefs_v else coefs_v)) (\<lambda>spec_f'.
     bindE (setitem_freq (h ! spec) (num_freqs self) spec_f') (\<lambda>new.
       Inr (h[spec := new], spec))))))"

text \<open>\<open>CRM.forward_impl\<close> (lines 217 to 218); the class defines no \<open>forward\<close>.\<close>

definition CRM_forward_impl ::
  "MultiFrameModule \<Rightarrow> complex tensor \<Rightarrow> complex tensor \<Rightarrow> error + complex tensor" where
  "CRM_forward_impl self spec coefs = mul_t (squeeze_last spec) coefs"

text \<open>\<open>MfWf.forward\<close> (lines 228 to 248).\<close>

definition MfWf_forward ::
  "MultiFrameModule \<Rightarrow> heap \<Rightarrow> nat \<Rightarrow> real tensor \<Rightarrow> real tensor \<Rightarrow> error + heap \<times> nat" where
  "MfWf_forward self h spec ifc iRxx =
     bindE (view_as_complex (h ! spec)) (\<lambda>spec_c.
     bindE (spec_unfold self spec_c) (\<lambda>spec_u.
     bindE (unflatten3 (frame_size self) (frame_size self) 2 iRxx) (\<lambda>iRxx_u.
     bindE (view_as_complex iRxx_u) (\<lambda>iRxx_c.
     bindE (unflatten2 (frame_size self) 2 ifc) (\<lambda>ifc_u.
     bindE (view_as_complex ifc_u) (\<lambda>ifc_c.
     bindE (narrow (- 2) (num_freqs self) spec_u) (\<lambda>spec_f.
     bindE (einsum_nm_m_n iRxx_c ifc_c) (\<lambda>w.
     bindE (apply_coefs spec_f w) (\<lambda>spec_f'.
       (let (h1, spec1) = (if training self then clone h spec else (h, spec))
        in bindE (setitem_freq (h1 ! spec1) (num_freqs self) (view_as_real spec_f')) (\<lambda>new.
             Inr (h1[spec1 := new], spec1))))))))))))"

text \<open>\<open>MfMvdr.forward\<close> (lines 259 to 281).\<close>

definition MfMvdr_forward ::
  "MfMvdr \<Rightarrow> heap \<Rightarrow> nat \<Rightarrow> real tensor \<Rightarrow> real tensor \<Rightarrow> error + heap \<times> nat" where
  "MfMvdr_forward self h spec ifc iRnn =
     bindE (view_as_complex (h ! spec)) (\<lambda>spec_c.
     bindE (spec_unfold self spec_c) (\<lambda>spec_u.
     bindE (unflatten3 (frame_size self) (frame_size self) 2 iRnn) (\<lambda>iRnn_u.
     bindE (view_as_complex iRnn_u) (\<lambda>iRnn_c.
     bindE (unflatten2 (frame_size self) 2 ifc) (\<lambda>ifc_u.
     bindE (view_as_complex ifc_u) (\<lambda>ifc_c.
     bindE (narrow (- 2) (num_freqs self) spec_u) (\<lambda>spec_f.
     bindE (einsum_nm_m_n iRnn_c ifc_c) (\<lambda>numerator.
     bindE (apply_coefs (conj_t ifc_c) numerator) (\<lambda>denumerator.
     bindE (div_t numerator (add_scalar (unsqueeze_last (real_t denumerator)) (eps self))) (\<lambda>w.
     bindE (apply_coefs spec_f w) (\<lambda>spec_f'.
       (let (h1, spec1) = (if training self then clone h spec else (h, spec))
        in bindE (setitem_freq (h1 ! spec1) (num_freqs self) (view_as_real spec_f')) (\<lambda>new.
             Inr (h1[spec1 := new], spec1))))))))))))))"

subsection \<open>What a caller observes\<close>

text \<open>The contents of the tensor that a call of \<open>forward\<close> returns, or the error raised.\<close>

definition returned :: "error + heap \<times> nat \<Rightarrow> error + real tensor" where
  "returned res = (case res of Inl e \<Rightarrow> Inl e | Inr (h', r') \<Rightarrow> Inr (h' ! r'))"

text \<open>
  A spectrogram (real view) with one batch entry, one channel, two frames and two
  frequency bins, holding \<open>1, 2\<close> in the first and \<open>3, 4\<close> in the second frame;
  coefficients with two taps of value 2 for one frequency bin; a deep filter with
  \<open>num_freqs = 1\<close>, \<open>frame_size = 2\<close> and \<open>lookahead = 0\<close>, as constructed and after
  \<open>eval()\<close>; two calls of its \<open>forward\<close>, one after the other, on the same tensor object.
\<close>

definition spec_a :: "real tensor" where
  "spec_a = \<lparr>shape = [1, 1, 2, 2, 2],
             elems = (\<lambda>idx. if idx ! 4 = 0 then of_nat (2 * (idx ! 2) + idx ! 3 + 1) else 0)\<rparr>"

definition coefs_a :: "real tensor" where
  "coefs_a = \<lparr>shape = [1, 2, 2, 1, 2], elems = (\<lambda>idx. if idx ! 4 = 0 then 2 else 0)\<rparr>"

definition df_train :: DF where
  "df_train = projr (DF_init 1 2 0 False)"

definition df_eval :: DF where
  "df_eval = df_train\<lparr>training := False\<rparr>"

definition first_call :: "error + heap \<times> nat" where
  "first_call = DF_forward df_eval [spec_a] 0 coefs_a"


text \<open>
  Further calls on the example spectrogram: the deep filter in training mode and the
  real-valued deep filter.
\<close>

definition train_call :: "error + heap \<times> nat" where
  "train_call = DF_forward df_train [spec_a] 0 coefs_a"

definition dfreal_train :: DF where
  "dfreal_train = projr (DFreal_init 1 2 0 False)"

definition dfreal_call :: "error + heap \<times> nat" where
  "dfreal_call = DFreal_forward dfreal_train [spec_a] 0 coefs_a"

text \<open>
  A spectrogram (real view) with one frame and two frequency bins \<open>1 + 2\<i>\<close> and \<open>3 + 4\<i>\<close>;
  for \<open>frame_size = 1\<close> and one filtered bin, the inverse covariance matrix \<open>(1)\<close> and the
  inter-frame correlation vector \<open>(1)\<close>, in the layout \<open>[B, T, F, \<dots>]\<close> of the docstring of
  \<open>MfWf.forward\<close>; the Wiener filter and the MVDR beamformer (with \<open>eps = 1\<close>) as
  constructed, and their calls.
\<close>

definition spec_s :: "real tensor" where
  "spec_s = \<lparr>shape = [1, 1, 1, 2, 2], elems = (\<lambda>idx. of_nat (2 * (idx ! 3) + idx ! 4 + 1))\<rparr>"

definition ifc_s :: "real tensor" where
  "ifc_s = \<lparr>shape = [1, 1, 1, 2], elems = (\<lambda>idx. if idx ! 3 = 0 then 1 else 0)\<rparr>"

definition iR_s :: "real tensor" where
  "iR_s = \<lparr>shape = [1, 1, 1, 2], elems = (\<lambda>idx. if idx ! 3 = 0 then 1 else 0)\<rparr>"

definition mfwf_train :: MultiFrameModule where
  "mfwf_train = projr (MfWf_init 1 1 0)"

definition mfwf_call :: "error + heap \<times> nat" where
  "mfwf_call = MfWf_forward mfwf_train [spec_s] 0 ifc_s iR_s"

definition mvdr_train :: MfMvdr where
  "mvdr_train = projr (MfMvdr_init 1 1 0 1)"

definition mvdr_call :: "error + heap \<times> nat" where
  "mvdr_call = MfMvdr_forward mvdr_train [spec_s] 0 ifc_s iR_s"

text \<open>
  The same for a batch of two spectrograms: shapes \<open>[2, 1, 1, 2, 2]\<close> for the spectrogram
  and \<open>[2, 1, 1, 2]\<close> for the statistics. And statistics in the layout of the docstring of
  \<open>MfMvdr.forward\<close>, \<open>[B, C * N * 2, T, F]\<close> and \<open>[B, C * N\<^sup>2 * 2, T, F]\<close>, for one
  spectrogram with one channel, one frame and one frequency bin and \<open>frame_size = 2\<close>.
\<close>

definition spec_b2 :: "real tensor" where
  "spec_b2 = \<lparr>shape = [2, 1, 1, 2, 2], elems = (\<lambda>idx. of_nat (2 * (idx ! 3) + idx ! 4 + 1))\<rparr>"

definition ifc_b2 :: "real tensor" where
  "ifc_b2 = \<lparr>shape = [2, 1, 1, 2], elems = (\<lambda>idx. if idx ! 3 = 0 then 1 else 0)\<rparr>"

definition iR_b2 :: "real tensor" where
  "iR_b2 = \<lparr>shape = [2, 1, 1, 2], elems = (\<lambda>idx. if idx ! 3 = 0 then 1 else 0)\<rparr>"

definition mvdr_b2_call :: "error + heap \<times> nat" where
  "mvdr_b2_call = MfMvdr_forward mvdr_train [spec_b2] 0 ifc_b2 iR_b2"

definition spec_d :: "real tensor" where
  "spec_d = \<lparr>shape = [1, 1, 1, 1, 2], elems = (\<lambda>idx. 1)\<rparr>"

definition ifc_d :: "real tensor" where
  "ifc_d = \<lparr>shape = [1, 4, 1, 1], elems = (\<lambda>idx. 1)\<rparr>"

definition iR_d :: "real tensor" where
  "iR_d = \<lparr>shape = [1, 8, 1, 1], elems = (\<lambda>idx. 1)\<rparr>"

definition mvdr_d_call :: "error + heap \<times> nat" where
  "mvdr_d_call = MfMvdr_forward (projr (MfMvdr_init 1 2 0 1)) [spec_d] 0 ifc_d iR_d"

text \<open>A complex ratio mask with \<open>num_freqs = 1\<close>, applied to a spectrogram with two
  frequency bins of value \<open>1 + 2\<i>\<close> and the coefficient \<open>3 - \<i>\<close> for both bins.\<close>

definition crm :: MultiFrameModule where
  "crm = projr (CRM_init 1 1 0)"

definition spec_crm :: "complex tensor" where
  "spec_crm = \<lparr>shape = [1, 1, 1, 2, 1], elems = (\<lambda>idx. Complex 1 2)\<rparr>"

definition coefs_crm :: "complex tensor" where
  "coefs_crm = \<lparr>shape = [1, 1, 1, 2], elems = (\<lambda>idx. Complex 3 (- 1))\<rparr>"

section \<open>Verified properties\<close>

subsection \<open>Construction-time validation\<close>


text \<open>
  C3, as stated, does not hold: a deep filter with \<open>frame_size = 2\<close> and \<open>lookahead = 3\<close>
  (so \<open>lookahead \<ge> frame_size\<close>) is constructed without an error.
\<close>

theorem C3_lookahead_not_rejected:
  "(2::int) \<le> 3 \<and> \<not> isl (DF_init 4 2 3 False)"
  by (simp add: DF_init_def MultiFrameModule_init_def)

text \<open>
  C3, amended: construction raises exactly for the complex ratio mask with
  \<open>frame_size \<noteq> 1\<close> or \<open>lookahead \<noteq> 0\<close>, and then it is an assertion failure; every
  other construction succeeds, whatever \<open>num_freqs\<close>, \<open>frame_size\<close> and \<open>lookahead\<close> are.
\<close>

theorem C3_construction:
  "(isl (CRM_init nf fs la) \<longleftrightarrow> fs \<noteq> 1 \<or> la \<noteq> 0)
   \<and> (isl (CRM_init nf fs la) \<longrightarrow> CRM_init nf fs la = Inl AssertionError)
   \<and> \<not> isl (DF_init nf fs la c)
   \<and> \<not> isl (DFreal_init nf fs la c)
   \<and> \<not> isl (MfWf_init nf fs la)
   \<and> \<not> isl (MfMvdr_init nf fs la e)"
  by (simp add: CRM_init_def DF_init_def DFreal_init_def MfWf_init_def MfMvdr_init_def
      MultiFrameModule_init_def)

theorem C3_construction_witness:
  "isl (CRM_init 96 2 0) \<and> CRM_init 96 2 0 = Inl AssertionError
   \<and> \<not> isl (CRM_init 96 1 0) \<and> \<not> isl (MfWf_init 96 2 5)"
proof -
  have a: "isl (CRM_init 96 2 0) \<longleftrightarrow> (2::int) \<noteq> 1 \<or> (0::int) \<noteq> 0"
    and b: "isl (CRM_init 96 2 0) \<longrightarrow> CRM_init 96 2 0 = Inl AssertionError"
    using C3_construction [of 96 2 0] by blast+
  have c: "isl (CRM_init 96 1 0) \<longleftrightarrow> (1::int) \<noteq> 1 \<or> (0::int) \<noteq> 0"
    using C3_construction [of 96 1 0] by blast
  have d: "\<not> isl (MfWf_init 96 2 5)"
    using C3_construction [of 96 2 5] by blast
  from a have "isl (CRM_init 96 2 0)" by simp
  with b c d show ?thesis by simp
qed

subsection \<open>Windowing with \<open>as_windowed\<close>\<close>

text \<open>
  Along axis 1 of a two-dimensional tensor the number of windows that \<open>as_windowed\<close>
  requests is \<open>n - window_length + 1\<close> whatever the step is; only the stride of the window
  axis depends on the step.
\<close>

lemma as_windowed_layout_dim1:
  "step \<noteq> 0 \<Longrightarrow>
   as_windowed_layout [b, n] [s0, s1] window_length step 1
     = Inr ([b, n - window_length + 1, window_length], [s0, s1 * step, s1])"
  by (simp add: as_windowed_layout_def resolve_dim_def py_insert_def)

text \<open>
  With step 1 the windows are the contiguous slices: window \<open>i\<close> of a sequence \<open>xs\<close> holds
  \<open>xs[i : i + window_length]\<close>, and there are \<open>length xs - window_length + 1\<close> windows.
\<close>

lemma as_windowed_step1:
  assumes "0 < L" and "L \<le> int (length xs)"
  shows "\<exists>v. as_windowed (row xs) L 1 1 = Inr v
           \<and> sizes v = [1, int (length xs) - L + 1, L]
           \<and> (\<forall>i j. 0 \<le> i \<and> 0 \<le> j \<longrightarrow> sget v [0, i, j] = xs ! nat (i + j))"
  using assms
  by (simp add: as_windowed_def as_windowed_layout_dim1 as_strided_def row_def sget_def cell_def
      algebra_simps)

text \<open>
  C1 on the code: a sequence of length 10 with \<open>window_length = 3\<close> and \<open>step = 2\<close> has
  \<open>\<lfloor>(10 - 3) / 2\<rfloor> + 1 = 4\<close> windows, but \<open>as_windowed\<close> requests 8 windows with stride 2,
  which reach beyond the ten entries of the storage, so that \<open>as_strided\<close> raises.
\<close>

theorem C1_as_windowed_step2:
  "as_windowed_layout [1, 10] [10, 1] 3 2 1 = Inr ([1, 8, 3], [10, 2, 1])
   \<and> as_windowed (row [0, 1, 2, 3, 4, 5, 6, 7, 8, 9 :: nat]) 3 2 1 = Inl RuntimeError
   \<and> (10 - 3) div 2 + 1 = (4 :: int)"
  by (simp add: as_windowed_def as_windowed_layout_def resolve_dim_def py_insert_def
      as_strided_def row_def)

subsection \<open>Unfolding the spectrogram\<close>

text \<open>
  C4, as stated, does not hold for every spectrogram and every configuration with
  \<open>0 \<le> lookahead < frame_size\<close>. For a spectrogram without frames and \<open>frame_size = 2\<close>
  the padded time axis has one entry, which is shorter than a window, and \<open>spec_unfold\<close>
  raises. For a module constructed with \<open>real=True\<close> the padding layer is a
  \<open>ConstantPad3d\<close>, which pads the channel axis: for five frames, \<open>frame_size = 3\<close> and
  \<open>lookahead = 1\<close> the result has three channels and three windows instead of one channel
  and five windows.
\<close>

theorem C4_spec_unfold_not_total:
  "isl (spec_unfold (projr (MultiFrameModule_init 1 2 0 False)) spec0)
   \<and> \<not> isl (spec_unfold (projr (MultiFrameModule_init 1 3 1 True)) spec5)
   \<and> shape (projr (spec_unfold (projr (MultiFrameModule_init 1 3 1 True)) spec5)) = [1, 3, 3, 1, 3]"
  by (simp add: MultiFrameModule_init_def spec_unfold_def apply_pad_def ConstantPad2d_def
      ConstantPad3d_def rank_def pad_dim_def unfold_t_def resolve_dim_def spec0_def spec5_def)

text \<open>
  C4, amended: for a spectrogram of shape \<open>[B, C, T, F]\<close> with at least one frame and a
  module constructed with \<open>real=False\<close> and \<open>0 \<le> lookahead < frame_size\<close>: if
  \<open>frame_size > 1\<close>, \<open>spec_unfold\<close> pads the time axis with \<open>frame_size - 1 - lookahead\<close>
  zero frames before and \<open>lookahead\<close> zero frames after and takes windows of length
  \<open>frame_size\<close> with step 1, so that entry \<open>n\<close> of the window at time \<open>t\<close> is the source
  frame \<open>t - (frame_size - 1 - lookahead) + n\<close>, or zero where that frame does not exist;
  otherwise it appends a frame axis of length one.
\<close>

theorem C4_spec_unfold:
  assumes m: "MultiFrameModule_init nf fs la False = Inr m"
    and sh: "shape spec = [B, C, T, F]"
    and la: "0 \<le> la" "la < fs" and T: "0 < T"
  shows "\<exists>u. spec_unfold m (spec :: complex tensor) = Inr u
            \<and> (if 1 < fs
               then spec_unfold m spec
                      = (case ConstantPad2d (fs - 1 - la, la) 0 spec of
                           Inl e \<Rightarrow> Inl e | Inr padded \<Rightarrow> unfold_t 2 fs 1 padded)
                  \<and> shape u = [B, C, T, F, nat fs]
                  \<and> (\<forall>b c t f n. elems u [b, c, t, f, n] =
                       (let s = int t + int n - (fs - 1 - la)
                        in if 0 \<le> s \<and> s < int T then elems spec [b, c, nat s, f] else 0))
               else shape u = [B, C, T, F, 1]
                  \<and> (\<forall>b c t f. elems u [b, c, t, f, 0] = elems spec [b, c, t, f]))"
proof (cases "1 < fs")
  case True
  with assms show ?thesis
    apply (simp add: MultiFrameModule_init_def spec_unfold_def apply_pad_def ConstantPad2d_def rank_def pad_dim_def
      unfold_t_def resolve_dim_def Let_def)
    apply (auto simp: nat_add_distrib algebra_simps)
    done
next
  case False
  with assms show ?thesis
    by (auto simp add: MultiFrameModule_init_def spec_unfold_def unsqueeze_last_def)
qed

theorem C4_spec_unfold_witness:
  "\<not> isl (spec_unfold (projr (MultiFrameModule_init 1 3 1 False)) spec5)
   \<and> shape (projr (spec_unfold (projr (MultiFrameModule_init 1 3 1 False)) spec5)) = [1, 1, 5, 1, 3]
   \<and> map (\<lambda>t. map (\<lambda>n. elems (projr (spec_unfold (projr (MultiFrameModule_init 1 3 1 False)) spec5)) [0, 0, t, 0, n]) [0, 1, 2]) [0, 1, 4]
       = [[0, 1, 2], [1, 2, 3], [4, 5, 0]]"
proof -
  let ?m = "projr (MultiFrameModule_init 1 3 1 False)"
  have m: "MultiFrameModule_init 1 3 1 False = Inr ?m"
    by (simp add: MultiFrameModule_init_def)
  have sh: "shape spec5 = [1, 1, 5, 1]" by (simp add: spec5_def)
  from C4_spec_unfold [OF m sh] obtain u where
    u: "spec_unfold ?m spec5 = Inr u" "shape u = [1, 1, 5, 1, 3]"
      "\<And>b c t f n. elems u [b, c, t, f, n] =
         (let s = int t + int n - (3 - 1 - 1)
          in if 0 \<le> s \<and> s < int 5 then elems spec5 [b, c, nat s, f] else 0)"
    by auto
  show ?thesis
    unfolding u(1) by (simp add: u(2,3)) (simp add: spec5_def)
qed

subsection \<open>Facts about broadcasting and sums\<close>

lemma bshape_aligned_same: "bshape_aligned xs xs = Some xs"
  by (induction xs) (simp_all add: bdim_def)

lemma broadcast_shapes_same: "broadcast_shapes xs xs = Some xs"
  by (simp add: broadcast_shapes_def lpad1_def bshape_aligned_same)

lemma map2_bindex_same:
  "list_all2 (<) idx shp \<Longrightarrow> map2 (\<lambda>s i. if s = 1 then 0 else i) shp idx = (idx :: nat list)"
  by (induction idx shp rule: list_all2_induct) auto

lemma bindex_inside: "inside idx shp \<Longrightarrow> bindex shp idx = idx"
  unfolding inside_def bindex_def
  using map2_bindex_same [of idx shp] list_all2_lengthD [of "(<)" idx shp] by simp

lemma sum_list_upt_conv: "sum_list (map f [0 ..< n]) = (\<Sum>k<n. f k)"
  by (simp add: interv_sum_list_conv_sum_set_nat atLeast0LessThan)

subsection \<open>Tikhonov regularisation\<close>

text \<open>
  C5: for a tensor of square matrices of size \<open>n\<close>, \<open>_tik_reg\<close> returns the tensor in
  which every matrix \<open>M\<close> is replaced by \<open>M + (Re (trace M) * reg + eps) \<cdot> I\<close>; in particular
  an all-zero matrix becomes \<open>eps \<cdot> I\<close>, with off-diagonal entries zero.
\<close>

theorem C5_tik_reg:
  assumes sh: "shape mat = pre @ [n, n]"
  shows "\<exists>r. tik_reg mat reg eps0 = Inr r \<and> shape r = shape mat
          \<and> (\<forall>p i j. elems r (p @ [i, j])
                = elems mat (p @ [i, j])
                  + (if i = j
                     then complex_of_real (Re (\<Sum>k<n. elems mat (p @ [k, k])) * reg + eps0)
                     else 0))
          \<and> ((\<forall>idx. elems mat idx = 0) \<longrightarrow>
               (\<forall>p i j. elems r (p @ [i, j]) = (if i = j then complex_of_real eps0 else 0)))"
  using sh
  by (simp add: tik_reg_def compute_mat_trace_def rank_def butlast_append sum_list_upt_conv Let_def)

theorem C5_tik_reg_witness:
  "\<not> isl (tik_reg zeros2 (1 / 10) (1 / 100))
   \<and> map (\<lambda>i. map (\<lambda>j. elems (projr (tik_reg zeros2 (1 / 10) (1 / 100))) [i, j]) [0, 1]) [0, 1]
       = [[1 / 100, 0], [0, 1 / 100]]"
proof -
  have sh: "shape zeros2 = [] @ [2, 2]" by (simp add: zeros2_def)
  have z: "\<forall>idx. elems zeros2 idx = 0" by (simp add: zeros2_def)
  from C5_tik_reg [OF sh, of "1 / 10" "1 / 100"] z obtain r where
    r: "tik_reg zeros2 (1 / 10) (1 / 100) = Inr r"
      "\<And>p i j. elems r (p @ [i, j]) = (if i = j then complex_of_real (1 / 100) else 0)"
    by blast
  have e: "elems r [i, j] = (if i = j then complex_of_real (1 / 100) else 0)" for i j
    using r(2) [of "[]" i j] by simp
  show ?thesis
    unfolding r(1) by (simp add: e)
qed

subsection \<open>Correlation matrices\<close>

text \<open>
  C8 on the code: the entry with index \<open>(i, j)\<close> of the matrix that \<open>psd\<close> returns is not
  \<open>x_frame[i] * cnj (x_frame[j])\<close>. For the frame vector \<open>(1, \<i>)\<close> the entry with index
  \<open>(0, 1)\<close> is \<open>\<i>\<close>, while the first frame entry times the conjugate of the second is
  \<open>- \<i>\<close>: line 123 writes the output subscripts in the order \<open>m, n\<close> and so returns the
  transpose of the outer product \<open>X * conj(X)\<close> that the docstring names.
\<close>

theorem C8_psd_entry_transposed:
  "\<not> isl (psd x2 2)
   \<and> elems (projr (psd x2 2)) [0, 0, 1, 0, 0, 1] = \<i>
   \<and> elems x2 [0, 0, 0, 0] * cnj (elems x2 [0, 0, 1, 0]) = - \<i>"
  by (simp add: psd_def ConstantPad2d_def rank_def pad_dim_def x2_def unfold_t_def resolve_dim_def
      einsum_n_m_mn_def conj_t_def broadcast_shapes_same bindex_def)

text \<open>
  What \<open>psd\<close> computes: for a spectrogram of shape \<open>[B, C, T, F]\<close> with at least one frame
  and \<open>n \<ge> 1\<close> it windows the time axis causally with length \<open>n\<close> (\<open>n - 1\<close> leading zero
  frames, no look-ahead) and returns, for every bin, the matrix whose entry with index
  \<open>(i, j)\<close> is \<open>frame j * cnj (frame i)\<close>, where \<open>frame k\<close> is the source frame
  \<open>t - (n - 1) + k\<close>, or zero before the start.
\<close>

lemma psd_entries:
  assumes sh: "shape x = [B, C, T, F]" and n: "1 \<le> n" and T: "0 < T"
  shows "\<exists>r. psd x n = Inr r \<and> shape r = [B, C, T, F, nat n, nat n]
          \<and> (\<forall>b c t f i j. b < B \<and> c < C \<and> t < T \<and> f < F \<longrightarrow>
                elems r [b, c, t, f, i, j]
                  = (let frame = (\<lambda>k. let s = int t + int k - (n - 1)
                                      in if 0 \<le> s \<and> s < int T then elems x [b, c, nat s, f] else 0)
                     in frame j * cnj (frame i)))"
proof -
  have bi: "bindex [B, C, T, F] [b, c, t, f] = [b, c, t, f]"
    if "b < B" "c < C" "t < T" "f < F" for b c t f
    using that by (simp add: bindex_inside inside_def)
  show ?thesis
    using assms
    by (auto simp add: psd_def ConstantPad2d_def rank_def pad_dim_def unfold_t_def resolve_dim_def
      einsum_n_m_mn_def conj_t_def broadcast_shapes_same Let_def bi nat_add_distrib algebra_simps)
qed

lemma psd_entries_example:
  "\<not> isl (psd x2 2)
   \<and> shape (projr (psd x2 2)) = [1, 1, 2, 1, 2, 2]
   \<and> map (\<lambda>i. map (\<lambda>j. elems (projr (psd x2 2)) [0, 0, 1, 0, i, j]) [0, 1]) [0, 1]
       = [[1, \<i>], [- \<i>, 1]]"
proof -
  have sh: "shape x2 = [1, 1, 2, 1]" by (simp add: x2_def)
  from psd_entries [OF sh, of 2] obtain r where
    r: "psd x2 2 = Inr r" "shape r = [1, 1, 2, 1, 2, 2]"
      "\<And>b c t f i j. b < 1 \<and> c < 1 \<and> t < 2 \<and> f < 1 \<Longrightarrow>
         elems r [b, c, t, f, i, j]
           = (let frame = (\<lambda>k. let s = int t + int k - (2 - 1)
                               in if 0 \<le> s \<and> s < int 2 then elems x2 [b, c, nat s, f] else 0)
              in frame j * cnj (frame i))"
    by auto
  show ?thesis
    unfolding r(1) by (simp add: r(2,3)) (simp add: x2_def)
qed

subsection \<open>Facts about the write-back\<close>

lemma bindE_Inr: "bindE x f = Inr y \<longleftrightarrow> (\<exists>v. x = Inr v \<and> f v = Inr y)"
  by (cases x) (simp_all add: bindE_def)

lemma bindE_Inr_simp [simp]: "bindE (Inr v) f = f v"
  by (simp add: bindE_def)

lemma bindE_Inl_simp [simp]: "bindE (Inl e) f = Inl e"
  by (simp add: bindE_def)

lemma narrow_Inr: "narrow dm len t = Inr u \<Longrightarrow> 0 \<le> len"
  by (auto simp: narrow_def split: sum.splits if_splits)

lemma setitem_freq_keeps:
  assumes "setitem_freq spec nf v = Inr new" and "0 \<le> nf"
  shows "shape new = shape spec"
    and "nf \<le> int (idx ! (rank spec - 2)) \<Longrightarrow> elems new idx = elems spec idx"
  using assms by (auto simp: setitem_freq_def Let_def split: if_splits)

lemma write_back_keeps:
  assumes w: "(let (h1, spec1) = (if tr then clone h r else (h, r))
               in bindE (setitem_freq (h1 ! spec1) nf v) (\<lambda>new. Inr (h1[spec1 := new], spec1)))
              = Inr (h', r')"
    and r: "r < length h" and nf: "0 \<le> nf"
  shows "shape (h' ! r') = shape (h ! r)
         \<and> (\<forall>idx. nf \<le> int (idx ! (rank (h ! r) - 2)) \<longrightarrow> elems (h' ! r') idx = elems (h ! r) idx)"
proof (cases tr)
  case True
  with w obtain new where n: "setitem_freq (h ! r) nf v = Inr new"
    and h': "h' = (h @ [h ! r])[length h := new]" "r' = length h"
    by (auto simp: clone_def bindE_Inr)
  from h' have "h' ! r' = new" by simp
  with setitem_freq_keeps [OF n nf] show ?thesis by simp
next
  case False
  with w obtain new where n: "setitem_freq (h ! r) nf v = Inr new"
    and h': "h' = h[r := new]" "r' = r"
    by (auto simp: bindE_Inr)
  from h' r have "h' ! r' = new" by simp
  with setitem_freq_keeps [OF n nf] show ?thesis by simp
qed

lemma DF_forward_keeps:
  assumes "DF_forward self h r coefs = Inr (h', r')" and "r < length h"
  shows "shape (h' ! r') = shape (h ! r)
         \<and> (\<forall>idx. num_freqs self \<le> int (idx ! (rank (h ! r) - 2))
               \<longrightarrow> elems (h' ! r') idx = elems (h ! r) idx)"
  using assms unfolding DF_forward_def bindE_Inr
  by (elim exE conjE) (rule write_back_keeps, assumption, assumption, erule narrow_Inr)


lemma write_back_inplace:
  assumes s: "setitem_freq (h ! r) nf v = Inr new"
    and e: "Inr (h[r := new], r) = (Inr (h', r') :: error + heap \<times> nat)"
    and r: "r < length h" and nf: "0 \<le> nf"
  shows "shape (h' ! r') = shape (h ! r)
         \<and> (\<forall>idx. nf \<le> int (idx ! (rank (h ! r) - 2)) \<longrightarrow> elems (h' ! r') idx = elems (h ! r) idx)"
proof -
  from e r have "h' ! r' = new" by auto
  with setitem_freq_keeps [OF s nf] show ?thesis by simp
qed

lemma DFreal_forward_keeps:
  assumes "DFreal_forward self h r coefs = Inr (h', r')" and "r < length h"
  shows "shape (h' ! r') = shape (h ! r)
         \<and> (\<forall>idx. num_freqs self \<le> int (idx ! (rank (h ! r) - 2))
               \<longrightarrow> elems (h' ! r') idx = elems (h ! r) idx)"
  using assms unfolding DFreal_forward_def bindE_Inr
  by (elim exE conjE) (rule write_back_inplace, assumption, assumption, assumption, erule narrow_Inr)

lemma MfWf_forward_keeps:
  assumes "MfWf_forward self h r ifc iRxx = Inr (h', r')" and "r < length h"
  shows "shape (h' ! r') = shape (h ! r)
         \<and> (\<forall>idx. num_freqs self \<le> int (idx ! (rank (h ! r) - 2))
               \<longrightarrow> elems (h' ! r') idx = elems (h ! r) idx)"
  using assms unfolding MfWf_forward_def bindE_Inr
  by (elim exE conjE) (rule write_back_keeps, assumption, assumption, erule narrow_Inr)

lemma MfMvdr_forward_keeps:
  assumes "MfMvdr_forward self h r ifc iRnn = Inr (h', r')" and "r < length h"
  shows "shape (h' ! r') = shape (h ! r)
         \<and> (\<forall>idx. num_freqs self \<le> int (idx ! (rank (h ! r) - 2))
               \<longrightarrow> elems (h' ! r') idx = elems (h ! r) idx)"
  using assms unfolding MfMvdr_forward_def bindE_Inr
  by (elim exE conjE) (rule write_back_keeps, assumption, assumption, erule narrow_Inr)

text \<open>Aliasing of the write-back.\<close>

lemma write_back_training:
  assumes w: "(let (h1, spec1) = (if True then clone h r else (h, r))
               in bindE (setitem_freq (h1 ! spec1) nf v) (\<lambda>new. Inr (h1[spec1 := new], spec1)))
              = Inr (h', r')"
    and r: "r < length h"
  shows "r' = length h \<and> r' \<noteq> r \<and> length h' = Suc (length h) \<and> (\<forall>q < length h. h' ! q = h ! q)"
  using assms by (auto simp: clone_def bindE_Inr nth_append)

lemma write_back_returned:
  assumes r: "r < length h"
  shows "returned (let (h1, spec1) = (if tr then clone h r else (h, r))
               in bindE (setitem_freq (h1 ! spec1) nf v) (\<lambda>new. Inr (h1[spec1 := new], spec1)))
         = setitem_freq (h ! r) nf v"
  using r by (cases "setitem_freq (h ! r) nf v") (auto simp: returned_def clone_def Let_def)

lemma returned_bindE: "returned (bindE x f) = bindE x (\<lambda>v. returned (f v))"
  by (cases x) (simp_all add: returned_def)

lemma spec_unfold_training [simp]: "spec_unfold (self\<lparr>training := tr\<rparr>) = spec_unfold self"
  by (rule ext) (simp add: spec_unfold_def apply_pad_def cong: sum.case_cong)

lemma spec_unfold_real_training [simp]:
  "spec_unfold_real (self\<lparr>training := tr\<rparr>) = spec_unfold_real self"
  by (rule ext) (simp add: spec_unfold_real_def apply_pad_def cong: sum.case_cong)

lemma DF_forward_returned:
  assumes "r < length h"
  shows "returned (DF_forward self h r coefs) =
     bindE (view_as_complex (h ! r)) (\<lambda>spec_c.
     bindE (spec_unfold self spec_c) (\<lambda>spec_u.
     bindE (view_as_complex coefs) (\<lambda>coefs_c.
     bindE (narrow (- 2) (num_freqs self) spec_u) (\<lambda>spec_f.
     bindE (view_split1 (frame_size self) coefs_c) (\<lambda>coefs_v.
     bindE (df spec_f (if conj_flag self then conj_t coefs_v else coefs_v)) (\<lambda>spec_f'.
       setitem_freq (h ! r) (num_freqs self) (view_as_real spec_f')))))))"
  unfolding DF_forward_def returned_bindE write_back_returned [OF assms] ..

lemma DF_forward_deterministic:
  assumes "r1 < length h1" "r2 < length h2" "h1 ! r1 = h2 ! r2"
  shows "returned (DF_forward (self\<lparr>training := tr\<rparr>) h2 r2 coefs) = returned (DF_forward self h1 r1 coefs)"
  using assms by (simp add: DF_forward_returned)

lemma bi_less: "i < s \<Longrightarrow> bi s i = i"
  by (auto simp: bi_def)

lemma expandable_strip: "expandable (dropWhile (\<lambda>s. s = 1) shp) shp"
proof -
  have l: "length shp - length (dropWhile (\<lambda>s. s = 1) shp) = length (takeWhile (\<lambda>s. s = 1) shp)"
    by (metis add_diff_cancel_right' length_append takeWhile_dropWhile_id)
  show ?thesis
    unfolding expandable_def l
    by (simp add: dropWhile_eq_drop [symmetric] length_dropWhile_le list_all2_same)
qed

lemma strip_index:
  "inside idx shp \<Longrightarrow>
   replicate (length shp - length (dropWhile (\<lambda>s. s = 1) shp)) 0
     @ bindex (dropWhile (\<lambda>s. s = 1) shp) idx = idx"
proof (induction shp arbitrary: idx)
  case Nil
  then show ?case by (simp add: inside_def bindex_def)
next
  case (Cons x xs)
  then obtain i js where idx: "idx = i # js" and i: "i < x" and js: "inside js xs"
    by (auto simp: inside_def list_all2_Cons2)
  show ?case
  proof (cases "x = 1")
    case True
    have le: "length (dropWhile (\<lambda>s. s = 1) xs) \<le> length xs"
      by (rule length_dropWhile_le)
    from js have len: "length js = length xs"
      by (simp add: inside_def list_all2_lengthD)
    have b: "bindex (dropWhile (\<lambda>s. s = 1) xs) (i # js) = bindex (dropWhile (\<lambda>s. s = 1) xs) js"
      using le len by (simp add: bindex_def Suc_diff_le)
    from True i have "i = 0" by simp
    with True Cons.IH [OF js] b le show ?thesis
      by (simp add: idx Suc_diff_le)
  next
    case False
    with Cons.prems show ?thesis
      by (simp add: idx bindex_inside)
  qed
qed

lemmas expandable_strip_Suc = expandable_strip [unfolded One_nat_def]

lemmas strip_index_Suc = strip_index [unfolded One_nat_def]

lemma setitem_freq_same_shape:
  assumes v: "shape v = (shape spec)[rank spec - 2 := nat nf]"
    and rk: "2 \<le> rank spec"
    and nf: "0 \<le> nf" "nf \<le> int (shape spec ! (rank spec - 2))"
  shows "\<exists>new. setitem_freq spec nf v = Inr new \<and> shape new = shape spec
           \<and> (\<forall>idx. inside idx (shape spec) \<longrightarrow>
                 elems new idx = (if int (idx ! (rank spec - 2)) < nf then elems v idx else elems spec idx))"
proof -
  have k: "nat (if nf < 0 then max 0 (int (shape spec ! (rank spec - 2)) + nf)
               else min nf (int (shape spec ! (rank spec - 2)))) = nat nf"
    using nf by simp
  have ins: "inside idx (shape v)" if "inside idx (shape spec)" "int (idx ! (rank spec - 2)) < nf" for idx
    using that rk nf unfolding v inside_def rank_def
    by (auto simp: list_all2_conv_all_nth nth_list_update)
  have e: "expandable (dropWhile (\<lambda>s. s = Suc 0) (shape v))
              ((shape spec)[length (shape spec) - 2 := nat nf])"
    using expandable_strip_Suc [of "shape v"] v by (simp add: rank_def)
  show ?thesis
    using rk nf ins e
    by (auto simp: setitem_freq_def Let_def k rank_def strip_index_Suc)
qed

lemma spec_unfold_value:
  assumes sh: "shape spec = [B, C, T, F]"
    and nu: "need_unfold self = (1 < frame_size self)"
    and pd: "pad self = (frame_size self - 1 - la, la)"
    and la: "0 \<le> la" "la < frame_size self" and T: "0 < T"
    and rf: "\<not> real_flag self"
  shows "\<exists>u. spec_unfold self (spec :: complex tensor) = Inr u
            \<and> shape u = [B, C, T, F, nat (frame_size self)]
            \<and> (\<forall>b c t f n. t < T \<and> n < nat (frame_size self) \<longrightarrow> elems u [b, c, t, f, n] =
                 (let s = int t + int n - (frame_size self - 1 - la)
                  in if 0 \<le> s \<and> s < int T then elems spec [b, c, nat s, f] else 0))"
proof (cases "1 < frame_size self")
  case True
  with assms show ?thesis
    by (auto simp add: spec_unfold_def apply_pad_def ConstantPad2d_def rank_def pad_dim_def
      unfold_t_def resolve_dim_def Let_def nat_add_distrib algebra_simps)
next
  case False
  with la have "frame_size self = 1" "la = 0" by auto
  with assms show ?thesis
    by (auto simp add: spec_unfold_def unsqueeze_last_def)
qed

lemma write_back_Inr:
  assumes r: "r < length h" and s: "setitem_freq (h ! r) nf v = Inr new"
  shows "\<exists>h' r'. (let (h1, spec1) = (if tr then clone h r else (h, r))
               in bindE (setitem_freq (h1 ! spec1) nf v) (\<lambda>new. Inr (h1[spec1 := new], spec1)))
              = Inr (h', r') \<and> h' ! r' = new"
  using assms by (cases tr) (auto simp: clone_def)

subsection \<open>Deep filtering\<close>

text \<open>
  C7: for a spectrogram of shape \<open>[B, C, T, F, 2]\<close> (real view) and coefficients of shape
  \<open>[B, C * N, T, num_freqs, 2]\<close>, \<open>N = frame_size\<close>, \<open>DF.forward\<close> returns a tensor
  whose bin \<open>(b, c, t, f)\<close>, \<open>f < num_freqs\<close>, is the sum over the frame index \<open>n\<close> of
  \<open>window[n] * coef[n]\<close>, where \<open>window[n]\<close> is the entry of the unfolded spectrogram
  and \<open>coef[n]\<close> is tap \<open>c * N + n\<close> of the coefficients, conjugated if and only if the
  \<open>conj\<close> flag of the module is set.
\<close>

theorem C7_DF_forward:
  assumes self: "DF_init nf fs la cj = Inr m" "self = m\<lparr>training := tr\<rparr>"
    and r: "r < length h"
    and spec: "shape (h ! r) = [B, C, T, F, 2]"
    and coefs: "shape coefs = [B, C * nat fs, T, nat nf, 2]"
    and la: "0 \<le> la" "la < fs"
    and sz: "0 < B" "0 < T" "0 < nf" "nf \<le> int F"
  shows "\<exists>h' r'. DF_forward self h r coefs = Inr (h', r')
           \<and> (\<forall>b c t f. b < B \<and> c < C \<and> t < T \<and> int f < nf \<longrightarrow>
                 Complex (elems (h' ! r') [b, c, t, f, 0]) (elems (h' ! r') [b, c, t, f, 1])
                 = (\<Sum>n<nat fs.
                      (let s = int t + int n - (fs - 1 - la)
                       in if 0 \<le> s \<and> s < int T
                          then Complex (elems (h ! r) [b, c, nat s, f, 0]) (elems (h ! r) [b, c, nat s, f, 1])
                          else 0)
                      * (let k = Complex (elems coefs [b, c * nat fs + n, t, f, 0])
                                         (elems coefs [b, c * nat fs + n, t, f, 1])
                         in if cj then cnj k else k)))"
proof -
  define N where "N = nat fs"
  define K where "K = nat nf"
  from la have N: "0 < N" "int N = fs" by (auto simp: N_def)
  from sz have K: "0 < K" "int K = nf" "K \<le> F" by (auto simp: K_def)
  have fld: "frame_size self = fs" "num_freqs self = nf" "need_unfold self = (1 < fs)"
    "pad self = (fs - 1 - la, la)" "conj_flag self = cj" "training self = tr"
    "\<not> real_flag self"
    using self by (auto simp: DF_init_def MultiFrameModule_init_def MultiFrameModule.extend_def)
  define sc where "sc = \<lparr>shape = [B, C, T, F],
     elems = (\<lambda>idx. Complex (elems (h ! r) (idx @ [0])) (elems (h ! r) (idx @ [1])))\<rparr>"
  have 1: "view_as_complex (h ! r) = Inr sc"
    by (simp add: view_as_complex_def spec sc_def)
  have "shape sc = [B, C, T, F]" by (simp add: sc_def)
  from spec_unfold_value [OF this, of self la] fld la sz obtain su where
    2: "spec_unfold self sc = Inr su" and su: "shape su = [B, C, T, F, N]"
    and sue: "\<And>b c t f n. t < T \<Longrightarrow> n < N \<Longrightarrow> elems su [b, c, t, f, n] =
                 (let s = int t + int n - (fs - 1 - la)
                  in if 0 \<le> s \<and> s < int T then elems sc [b, c, nat s, f] else 0)"
    unfolding N_def by auto
  define cc where "cc = \<lparr>shape = [B, C * N, T, K],
     elems = (\<lambda>idx. Complex (elems coefs (idx @ [0])) (elems coefs (idx @ [1])))\<rparr>"
  have 3: "view_as_complex coefs = Inr cc"
    by (simp add: view_as_complex_def coefs cc_def N_def K_def)
  define sf where "sf = \<lparr>shape = [B, C, T, K, N], elems = elems su\<rparr>"
  have 4: "narrow (- 2) nf su = Inr sf"
    using K sz by (simp add: narrow_def rank_def su resolve_dim_def sf_def K_def)
  define cv where "cv = \<lparr>shape = [B, C, N, T, K],
     elems = (\<lambda>idx. elems cc (idx ! 0 # (idx ! 1 * N + idx ! 2) # drop 3 idx))\<rparr>"
  have 5: "view_split1 fs cc = Inr cv"
    using N K sz la by (simp add: view_split1_def cc_def cv_def N_def)
  define cv' where "cv' = (if cj then conj_t cv else cv)"
  have cv's: "shape cv' = [B, C, N, T, K]" by (simp add: cv'_def cv_def conj_t_def)
  define out where "out = \<lparr>shape = [B, C, T, K],
     elems = (\<lambda>idx. let p = take 2 idx; ti = idx ! 2; fi = idx ! 3
                in sum_list (map (\<lambda>ni. elems sf (bindex [B, C] p @ [bi T ti, bi K fi, bi N ni])
                                       * elems cv' (bindex [B, C] p @ [bi N ni, bi T ti, bi K fi]))
                         [0 ..< N]))\<rparr>"
  have 6: "df sf cv' = Inr out"
    by (simp add: df_def rank_def sf_def cv's broadcast_shapes_same bdim_def out_def Let_def
        numeral_2_eq_2 numeral_3_eq_3)
  have oute: "elems out [b, c, t, f] =
      (\<Sum>n<N. elems su [b, c, t, f, n] * elems cv' [b, c, n, t, f])"
    if "b < B" "c < C" "t < T" "f < K" for b c t f
  proof -
    have "bindex [B, C] [b, c] = [b, c]"
      using that by (simp add: bindex_inside inside_def)
    then show ?thesis
      using that
      by (simp add: out_def Let_def sf_def bi_less sum_list_upt_conv cong: map_cong)
  qed
  have shv: "shape (view_as_real out) = (shape (h ! r))[rank (h ! r) - 2 := nat nf]"
    by (simp add: view_as_real_def out_def spec rank_def K_def)
  from setitem_freq_same_shape [OF shv] spec sz obtain new where
    7: "setitem_freq (h ! r) nf (view_as_real out) = Inr new"
    and newe: "\<And>idx. inside idx (shape (h ! r)) \<Longrightarrow>
          elems new idx = (if int (idx ! (rank (h ! r) - 2)) < nf
                           then elems (view_as_real out) idx else elems (h ! r) idx)"
    by (auto simp: rank_def)
  from write_back_Inr [OF r 7, of tr] obtain h' r' where
    8: "(let (h1, spec1) = (if tr then clone h r else (h, r))
         in bindE (setitem_freq (h1 ! spec1) nf (view_as_real out))
              (\<lambda>new. Inr (h1[spec1 := new], spec1))) = Inr (h', r')"
    and hr: "h' ! r' = new"
    by blast
  have run: "DF_forward self h r coefs = Inr (h', r')"
    unfolding DF_forward_def fld
    by (simp only: 1 2 3 4 5 6 bindE_Inr_simp cv'_def [symmetric]) (rule 8)
  have val: "Complex (elems new [b, c, t, f, 0]) (elems new [b, c, t, f, 1]) = elems out [b, c, t, f]"
    if "b < B" "c < C" "t < T" "f < K" for b c t f
  proof -
    have "inside [b, c, t, f, 0] (shape (h ! r))" "inside [b, c, t, f, 1] (shape (h ! r))"
      using that K by (simp_all add: inside_def spec)
    then show ?thesis
      using that K by (simp add: newe spec rank_def view_as_real_def)
  qed
  have cve: "elems cv' [b, c, n, t, f] =
      (let k = Complex (elems coefs [b, c * N + n, t, f, 0]) (elems coefs [b, c * N + n, t, f, 1])
       in if cj then cnj k else k)" for b c n t f
    by (simp add: cv'_def cv_def cc_def conj_t_def Let_def)
  show ?thesis
  proof (intro exI conjI allI impI)
    show "DF_forward self h r coefs = Inr (h', r')" by (rule run)
  next
    fix b c t f
    assume a: "b < B \<and> c < C \<and> t < T \<and> int f < nf"
    then have f: "f < K" using K by simp
    from a f have "Complex (elems (h' ! r') [b, c, t, f, 0]) (elems (h' ! r') [b, c, t, f, 1])
                 = elems out [b, c, t, f]"
      unfolding hr by (intro val) auto
    also from a f have "\<dots> = (\<Sum>n<N. elems su [b, c, t, f, n] * elems cv' [b, c, n, t, f])"
      by (intro oute) auto
    also from a have "\<dots> = (\<Sum>n<nat fs.
                      (let s = int t + int n - (fs - 1 - la)
                       in if 0 \<le> s \<and> s < int T
                          then Complex (elems (h ! r) [b, c, nat s, f, 0]) (elems (h ! r) [b, c, nat s, f, 1])
                          else 0)
                      * (let k = Complex (elems coefs [b, c * nat fs + n, t, f, 0])
                                         (elems coefs [b, c * nat fs + n, t, f, 1])
                         in if cj then cnj k else k))"
      unfolding N_def [symmetric]
      by (intro sum.cong refl) (simp add: cve sue sc_def Let_def)
    finally show "Complex (elems (h' ! r') [b, c, t, f, 0]) (elems (h' ! r') [b, c, t, f, 1])
                 = (\<Sum>n<nat fs.
                      (let s = int t + int n - (fs - 1 - la)
                       in if 0 \<le> s \<and> s < int T
                          then Complex (elems (h ! r) [b, c, nat s, f, 0]) (elems (h ! r) [b, c, nat s, f, 1])
                          else 0)
                      * (let k = Complex (elems coefs [b, c * nat fs + n, t, f, 0])
                                         (elems coefs [b, c * nat fs + n, t, f, 1])
                         in if cj then cnj k else k))" .
  qed
qed

subsection \<open>Evaluation on the example inputs\<close>

lemma upt_0_2: "[0 ..< 2] = [0, 1]"
  by (simp add: numeral_2_eq_2)

lemma sum_lessThan_2: "(\<Sum>n<2. f n) = f 0 + (f (1::nat) :: complex)"
  by (simp add: numeral_2_eq_2)

lemmas eval_defs = upt_0_2 DF_forward_def view_as_complex_def spec_unfold_def apply_pad_def
  ConstantPad2d_def
  rank_def pad_dim_def unfold_t_def resolve_dim_def narrow_def view_split1_def df_def
  broadcast_shapes_def lpad1_def bdim_def bindex_def bi_def conj_t_def clone_def setitem_freq_def
  expandable_def view_as_real_def DF_init_def MultiFrameModule_init_def MultiFrameModule.extend_def
  df_train_def df_eval_def spec_a_def coefs_a_def Let_def

lemma df_train_init: "DF_init 1 2 0 False = Inr df_train"
  by (simp add: df_train_def DF_init_def MultiFrameModule_init_def)

text \<open>The deep filter on the example: bin \<open>(t, f) = (1, 0)\<close> becomes \<open>1 * 2 + 3 * 2 = 8\<close>.\<close>

theorem C7_DF_forward_witness:
  "\<not> isl first_call
   \<and> Complex (elems (fst (projr first_call) ! snd (projr first_call)) [0, 0, 1, 0, 0])
              (elems (fst (projr first_call) ! snd (projr first_call)) [0, 0, 1, 0, 1]) = 8"
proof -
  have sh: "shape ([spec_a] ! 0) = [1, 1, 2, 2, 2]" "shape coefs_a = [1, 1 * nat 2, 2, nat 1, 2]"
    by (simp_all add: spec_a_def coefs_a_def)
  from C7_DF_forward [OF df_train_init df_eval_def _ sh]
  obtain h' r' where run: "DF_forward df_eval [spec_a] 0 coefs_a = Inr (h', r')"
    and val: "\<And>b c t f. b < 1 \<and> c < 1 \<and> t < 2 \<and> int f < 1 \<Longrightarrow>
       Complex (elems (h' ! r') [b, c, t, f, 0]) (elems (h' ! r') [b, c, t, f, 1])
       = (\<Sum>n<nat 2.
            (let s = int t + int n - (2 - 1 - 0)
             in if 0 \<le> s \<and> s < int 2
                then Complex (elems ([spec_a] ! 0) [b, c, nat s, f, 0])
                             (elems ([spec_a] ! 0) [b, c, nat s, f, 1])
                else 0)
            * (let k = Complex (elems coefs_a [b, c * nat 2 + n, t, f, 0])
                               (elems coefs_a [b, c * nat 2 + n, t, f, 1])
               in if False then cnj k else k))"
    by auto
  have "Complex (elems (h' ! r') [0, 0, 1, 0, 0]) (elems (h' ! r') [0, 0, 1, 0, 1]) = 8"
    by (subst val) (simp_all add: sum_lessThan_2 spec_a_def coefs_a_def complex_eq_iff)
  then show ?thesis
    unfolding first_call_def run by simp
qed

subsection \<open>Evaluation of the example calls\<close>

lemma train_call_run: "\<not> isl train_call"
  by code_simp

lemma dfreal_call_run:
  "\<not> isl dfreal_call
   \<and> elems spec_a [0, 0, 1, 0, 0] = 3
   \<and> elems (fst (projr dfreal_call) ! 0) [0, 0, 1, 0, 0] = 8"
  by code_simp

lemma mfwf_call_run: "\<not> isl mfwf_call"
  by code_simp

lemma mvdr_call_run: "\<not> isl mvdr_call"
  by code_simp

subsection \<open>Aliasing\<close>

lemma write_back_copy:
  assumes "(let (h1, spec1) = (if tr then clone h r else (h, r))
            in bindE (setitem_freq (h1 ! spec1) nf v) (\<lambda>new. Inr (h1[spec1 := new], spec1)))
           = Inr (h', r')"
    and "tr" and "r < length h"
  shows "r' = length h \<and> r' \<noteq> r \<and> length h' = Suc (length h) \<and> (\<forall>q < length h. h' ! q = h ! q)"
  using assms by (auto simp: clone_def bindE_Inr nth_append)

lemma write_back_alias:
  assumes s: "setitem_freq (h ! r) nf v = Inr new"
    and e: "Inr (h[r := new], r) = (Inr (h', r') :: error + heap \<times> nat)"
    and r: "r < length h"
  shows "r' = r \<and> length h' = length h \<and> (\<forall>q. q \<noteq> r \<longrightarrow> h' ! q = h ! q)
         \<and> (\<exists>v. setitem_freq (h ! r) nf v = Inr (h' ! r))"
proof -
  from e have h': "h' = h[r := new]" "r' = r" by auto
  with r have "h' ! r = new" by simp
  with s h' show ?thesis by auto
qed

text \<open>
  C10: \<open>DFreal.forward\<close> writes into the tensor object it is given, whatever the training
  flag is: the returned reference is the argument, no object is allocated, no other
  object changes, and the new contents of the argument are the old ones with the first
  \<open>num_freqs\<close> bins assigned. \<open>DF.forward\<close>, \<open>MfWf.forward\<close> and \<open>MfMvdr.forward\<close> in training
  mode return a newly allocated object and leave every existing object, the argument
  included, as it was.
\<close>

theorem C10_aliasing:
  assumes r: "r < length h"
  shows "(DFreal_forward dfrm h r coefs = Inr (h1, r1) \<longrightarrow>
            r1 = r \<and> length h1 = length h \<and> (\<forall>q. q \<noteq> r \<longrightarrow> h1 ! q = h ! q)
            \<and> (\<exists>v. setitem_freq (h ! r) (num_freqs dfrm) v = Inr (h1 ! r)))
       \<and> (training dfm \<longrightarrow> DF_forward dfm h r coefs = Inr (h2, r2) \<longrightarrow>
            r2 = length h \<and> r2 \<noteq> r \<and> length h2 = Suc (length h) \<and> (\<forall>q < length h. h2 ! q = h ! q))
       \<and> (training wfm \<longrightarrow> MfWf_forward wfm h r ifc iRxx = Inr (h3, r3) \<longrightarrow>
            r3 = length h \<and> r3 \<noteq> r \<and> length h3 = Suc (length h) \<and> (\<forall>q < length h. h3 ! q = h ! q))
       \<and> (training mvm \<longrightarrow> MfMvdr_forward mvm h r ifc iRnn = Inr (h4, r4) \<longrightarrow>
            r4 = length h \<and> r4 \<noteq> r \<and> length h4 = Suc (length h) \<and> (\<forall>q < length h. h4 ! q = h ! q))"
proof -
  have a: "r1 = r \<and> length h1 = length h \<and> (\<forall>q. q \<noteq> r \<longrightarrow> h1 ! q = h ! q)
            \<and> (\<exists>v. setitem_freq (h ! r) (num_freqs dfrm) v = Inr (h1 ! r))"
    if "DFreal_forward dfrm h r coefs = Inr (h1, r1)"
    using that r unfolding DFreal_forward_def bindE_Inr
    by (elim exE conjE) (rule write_back_alias, assumption, assumption, assumption)
  have b: "r2 = length h \<and> r2 \<noteq> r \<and> length h2 = Suc (length h) \<and> (\<forall>q < length h. h2 ! q = h ! q)"
    if "DF_forward dfm h r coefs = Inr (h2, r2)" "training dfm"
    using that r unfolding DF_forward_def bindE_Inr
    by (elim exE conjE) (rule write_back_copy, assumption, assumption, assumption)
  have c: "r3 = length h \<and> r3 \<noteq> r \<and> length h3 = Suc (length h) \<and> (\<forall>q < length h. h3 ! q = h ! q)"
    if "MfWf_forward wfm h r ifc iRxx = Inr (h3, r3)" "training wfm"
    using that r unfolding MfWf_forward_def bindE_Inr
    by (elim exE conjE) (rule write_back_copy, assumption, assumption, assumption)
  have d: "r4 = length h \<and> r4 \<noteq> r \<and> length h4 = Suc (length h) \<and> (\<forall>q < length h. h4 ! q = h ! q)"
    if "MfMvdr_forward mvm h r ifc iRnn = Inr (h4, r4)" "training mvm"
    using that r unfolding MfMvdr_forward_def bindE_Inr
    by (elim exE conjE) (rule write_back_copy, assumption, assumption, assumption)
  from a b c d show ?thesis by blast
qed

lemma isr_conv: "\<not> isl x \<Longrightarrow> x = Inr (fst (projr x), snd (projr x))"
  by (cases x) auto

lemma training_examples:
  "training dfreal_train" "training df_train" "training mfwf_train" "training mvdr_train"
  by (simp_all add: dfreal_train_def df_train_def mfwf_train_def mvdr_train_def DFreal_init_def
      DF_init_def MfWf_init_def MfMvdr_init_def MultiFrameModule_init_def
      MultiFrameModule.extend_def)

text \<open>The four calls on the example inputs.\<close>

theorem C10_aliasing_witness:
  "training dfreal_train \<and> \<not> isl dfreal_call
   \<and> snd (projr dfreal_call) = 0 \<and> length (fst (projr dfreal_call)) = 1
   \<and> elems ([spec_a] ! 0) [0, 0, 1, 0, 0] = 3
   \<and> elems (fst (projr dfreal_call) ! 0) [0, 0, 1, 0, 0] = 8
   \<and> \<not> isl train_call \<and> snd (projr train_call) = 1 \<and> fst (projr train_call) ! 0 = spec_a
   \<and> \<not> isl mfwf_call \<and> snd (projr mfwf_call) = 1 \<and> fst (projr mfwf_call) ! 0 = spec_s
   \<and> \<not> isl mvdr_call \<and> snd (projr mvdr_call) = 1 \<and> fst (projr mvdr_call) ! 0 = spec_s"
proof -
  have r: "0 < length [spec_a]" "0 < length [spec_s]" by simp_all
  have 1: "DFreal_forward dfreal_train [spec_a] 0 coefs_a
           = Inr (fst (projr dfreal_call), snd (projr dfreal_call))"
    using dfreal_call_run isr_conv [of dfreal_call] by (simp add: dfreal_call_def)
  have 2: "DF_forward df_train [spec_a] 0 coefs_a
           = Inr (fst (projr train_call), snd (projr train_call))"
    using train_call_run isr_conv [of train_call] by (simp add: train_call_def)
  have 3: "MfWf_forward mfwf_train [spec_s] 0 ifc_s iR_s
           = Inr (fst (projr mfwf_call), snd (projr mfwf_call))"
    using mfwf_call_run isr_conv [of mfwf_call] by (simp add: mfwf_call_def)
  have 4: "MfMvdr_forward mvdr_train [spec_s] 0 ifc_s iR_s
           = Inr (fst (projr mvdr_call), snd (projr mvdr_call))"
    using mvdr_call_run isr_conv [of mvdr_call] by (simp add: mvdr_call_def)
  note a = C10_aliasing [OF r(1), where dfrm = dfreal_train and coefs = coefs_a
      and ?h1.0 = "fst (projr dfreal_call)" and ?r1.0 = "snd (projr dfreal_call)"
      and dfm = df_train and ?h2.0 = "fst (projr train_call)" and ?r2.0 = "snd (projr train_call)"]
  note b = C10_aliasing [OF r(2), where wfm = mfwf_train and ifc = ifc_s and iRxx = iR_s
      and iRnn = iR_s and ?h3.0 = "fst (projr mfwf_call)" and ?r3.0 = "snd (projr mfwf_call)"
      and mvm = mvdr_train and ?h4.0 = "fst (projr mvdr_call)" and ?r4.0 = "snd (projr mvdr_call)"]
  from a 1 have A: "snd (projr dfreal_call) = 0 \<and> length (fst (projr dfreal_call)) = 1" by simp
  from a 2 training_examples have B: "snd (projr train_call) = 1 \<and> fst (projr train_call) ! 0 = spec_a"
    by simp
  from b 3 training_examples have C: "snd (projr mfwf_call) = 1 \<and> fst (projr mfwf_call) ! 0 = spec_s"
    by simp
  from b 4 training_examples have D: "snd (projr mvdr_call) = 1 \<and> fst (projr mvdr_call) ! 0 = spec_s"
    by simp
  from A B C D training_examples dfreal_call_run train_call_run mfwf_call_run mvdr_call_run
  show ?thesis by simp
qed

subsection \<open>Bins above \<open>num_freqs\<close>\<close>

text \<open>
  C2 on the code: the output of the complex ratio mask does not keep the bins at indices
  \<open>\<ge> num_freqs\<close>. With \<open>num_freqs = 1\<close>, a spectrogram with two bins of value \<open>1 + 2\<i>\<close> and
  the coefficient \<open>3 - \<i>\<close>, \<open>CRM.forward_impl\<close> returns \<open>5 + 5\<i>\<close> in the bin with index 1,
  which is not the input bin.
\<close>

theorem C2_CRM_changes_upper_bins:
  "num_freqs crm = 1
   \<and> \<not> isl (CRM_forward_impl crm spec_crm coefs_crm)
   \<and> elems (projr (CRM_forward_impl crm spec_crm coefs_crm)) [0, 0, 0, 1] = Complex 5 5
   \<and> elems spec_crm [0, 0, 0, 1, 0] = Complex 1 2"
  by code_simp

subsection \<open>The MVDR beamformer\<close>

text \<open>
  C6 on the code: for a batch of two spectrograms (statistics in the layout
  \<open>[B, T, F, \<dots>]\<close> that the \<open>unflatten\<close> calls of lines 271 and 272 need) \<open>MfMvdr.forward\<close>
  computes no output bin, it raises; and for statistics in the layout of its own
  docstring, \<open>[B, C * N * 2, T, F]\<close>, it raises as well. For a single spectrogram with one
  channel it returns.
\<close>

theorem C6_MfMvdr_forward_raises:
  "isl mvdr_b2_call \<and> projl mvdr_b2_call = RuntimeError
   \<and> isl mvdr_d_call \<and> projl mvdr_d_call = RuntimeError
   \<and> \<not> isl mvdr_call"
  by code_simp

text \<open>
  For the single spectrogram the filtered bin is \<open>window[0] * w[0]\<close> with
  \<open>w = numerator / (Re (cnj ifc * numerator) + eps) = 1 / 2\<close>: \<open>(1 + 2\<i>) / 2\<close>.
\<close>

lemma mvdr_call_val:
  "elems (fst (projr mvdr_call) ! snd (projr mvdr_call)) [0, 0, 0, 0, 0] = 1 / 2
   \<and> elems (fst (projr mvdr_call) ! snd (projr mvdr_call)) [0, 0, 0, 0, 1] = 1
   \<and> elems (fst (projr mvdr_call) ! snd (projr mvdr_call)) [0, 0, 0, 1, 0] = 3"
  by code_simp

subsection \<open>Repeated calls\<close>








end
